theory Spec2Isabelle
  imports Complex_Main "HOL-Library.Stream"
begin

section \<open>Sigilborn: classes, rarity, genetics and summoning\<close>

text \<open>
  An embedding of \<^verbatim>\<open>src/game/classes.ts\<close>, \<^verbatim>\<open>src/game/genetics.ts\<close> and
  \<^verbatim>\<open>src/game/summoning.ts\<close>.

  Conventions of the embedding.
  \<^item> A TypeScript \<^verbatim>\<open>number\<close> that holds a count, a stat, a level or a cost is an
    \<^typ>\<open>int\<close>; a probability or a growth rate is a \<^typ>\<open>real\<close>. Arithmetic is exact:
    the rounding of IEEE doubles is not modelled.
  \<^item> A string-literal union is a datatype with one constructor per literal.
  \<^item> \<^verbatim>\<open>Math.random()\<close> reads the head of a stream of draws and advances it. A draw
    is a real number in the half-open unit interval, which is what the language
    specification promises of \<^verbatim>\<open>Math.random()\<close>.
  \<^item> An instant is its number of milliseconds since the epoch. An ISO date string is
    represented by the instant it denotes, so \<^verbatim>\<open>toISOString\<close> followed by
    \<^verbatim>\<open>new Date(...)\<close> is the identity. A function that reads the clock takes the
    instant \<open>now\<close> as a parameter.
  \<^item> \<^verbatim>\<open>ulid()\<close> is an external generator: the identifiers it returns are parameters.
  \<^item> The interfaces of \<^verbatim>\<open>types.ts\<close> are not among the sources. Each record below
    lists the fields that the object literals and field accesses of the three modules
    use. Fields are renamed only where the source name is reserved in Isabelle
    (\<^verbatim>\<open>id\<close>, \<^verbatim>\<open>class\<close>, \<^verbatim>\<open>subclass\<close>, \<^verbatim>\<open>end\<close>, \<^verbatim>\<open>int\<close>, \<^verbatim>\<open>record\<close>) or is
    used by two records.
\<close>

subsection \<open>Random draws\<close>

typedef draw = "{r :: real. 0 \<le> r \<and> r < 1}"
  morphisms draw_val Draw
  by (rule exI [of _ 0]) simp

type_synonym rng = "draw stream"

definition Math_random :: "rng \<Rightarrow> draw \<times> rng" where
  "Math_random g = (shd g, stl g)"

subsection \<open>String-literal unions\<close>

datatype SigilClass = Ember | Thorn | Veil | Tidecaller | Sparkwright | Hollow

datatype Profession = Mining | Fishing | Foraging | Gardening

datatype Rarity = Common | Uncommon | Rare | Legendary | Mythic

datatype StatName = S_str | S_dex | S_agi | S_vit | S_end | S_int | S_wis | S_lck

datatype ActiveAbility =
  Power_strike | Keen_eye | Swift_hands | Iron_will
  | Deep_focus | Lucky_find | Second_wind | Elemental_surge

datatype PassiveAbility =
  Sturdy | Nimble | Scholar | Harvester
  | Enduring | Fortunate | Resilient | Prodigy

subsection \<open>Stat blocks\<close>

text \<open>
  \<^verbatim>\<open>SigilStats\<close> and \<^verbatim>\<open>StatGrowthRates\<close> have the same eight keys; the first holds
  integers, the second probabilities. \<open>getStat s k\<close> is \<^verbatim>\<open>s[k]\<close> and
  \<open>setStat s k v\<close> is the assignment \<^verbatim>\<open>s[k] = v\<close>.
\<close>

record 'n StatBlock =
  str :: 'n
  dex :: 'n
  agi :: 'n
  vit :: 'n
  end_stat :: 'n
  int_stat :: 'n
  wis :: 'n
  lck :: 'n

type_synonym SigilStats = "int StatBlock"
type_synonym StatGrowthRates = "real StatBlock"

fun getStat :: "'n StatBlock \<Rightarrow> StatName \<Rightarrow> 'n" where
  "getStat s S_str = str s"
| "getStat s S_dex = dex s"
| "getStat s S_agi = agi s"
| "getStat s S_vit = vit s"
| "getStat s S_end = end_stat s"
| "getStat s S_int = int_stat s"
| "getStat s S_wis = wis s"
| "getStat s S_lck = lck s"

fun setStat :: "'n StatBlock \<Rightarrow> StatName \<Rightarrow> 'n \<Rightarrow> 'n StatBlock" where
  "setStat s S_str v = s\<lparr>str := v\<rparr>"
| "setStat s S_dex v = s\<lparr>dex := v\<rparr>"
| "setStat s S_agi v = s\<lparr>agi := v\<rparr>"
| "setStat s S_vit v = s\<lparr>vit := v\<rparr>"
| "setStat s S_end v = s\<lparr>end_stat := v\<rparr>"
| "setStat s S_int v = s\<lparr>int_stat := v\<rparr>"
| "setStat s S_wis v = s\<lparr>wis := v\<rparr>"
| "setStat s S_lck v = s\<lparr>lck := v\<rparr>"

definition STAT_KEYS :: "StatName list" where
  "STAT_KEYS = [S_str, S_dex, S_agi, S_vit, S_end, S_int, S_wis, S_lck]"

subsection \<open>Class definitions\<close>

record ClassDefinition =
  cd_name :: string
  role :: string
  primaryStats :: "StatName \<times> StatName"
  cd_profession :: Profession
  baseStats :: SigilStats
  primaryGrowth :: StatGrowthRates
  secondaryGrowth :: StatGrowthRates

text \<open>The \<^verbatim>\<open>description\<close> field, a display text, is left out of the record.\<close>

fun CLASS_DEFINITIONS :: "SigilClass \<Rightarrow> ClassDefinition" where
  "CLASS_DEFINITIONS Ember = \<lparr>
     cd_name = ''Ember'', role = ''Warrior'',
     primaryStats = (S_str, S_end), cd_profession = Mining,
     baseStats = \<lparr>str = 12, dex = 7, agi = 8, vit = 9,
                  end_stat = 11, int_stat = 5, wis = 4, lck = 6\<rparr>,
     primaryGrowth = \<lparr>str = 75/100, dex = 20/100, agi = 30/100, vit = 35/100,
                      end_stat = 70/100, int_stat = 10/100, wis = 10/100, lck = 20/100\<rparr>,
     secondaryGrowth = \<lparr>str = 30/100, dex = 10/100, agi = 15/100, vit = 20/100,
                        end_stat = 30/100, int_stat = 5/100, wis = 5/100, lck = 10/100\<rparr>\<rparr>"
| "CLASS_DEFINITIONS Thorn = \<lparr>
     cd_name = ''Thorn'', role = ''Cultivator'',
     primaryStats = (S_vit, S_wis), cd_profession = Gardening,
     baseStats = \<lparr>str = 5, dex = 6, agi = 5, vit = 12,
                  end_stat = 9, int_stat = 8, wis = 11, lck = 6\<rparr>,
     primaryGrowth = \<lparr>str = 10/100, dex = 15/100, agi = 10/100, vit = 75/100,
                      end_stat = 35/100, int_stat = 30/100, wis = 70/100, lck = 20/100\<rparr>,
     secondaryGrowth = \<lparr>str = 5/100, dex = 10/100, agi = 5/100, vit = 30/100,
                        end_stat = 20/100, int_stat = 15/100, wis = 30/100, lck = 10/100\<rparr>\<rparr>"
| "CLASS_DEFINITIONS Veil = \<lparr>
     cd_name = ''Veil'', role = ''Oracle'',
     primaryStats = (S_int, S_wis), cd_profession = Foraging,
     baseStats = \<lparr>str = 4, dex = 7, agi = 6, vit = 7,
                  end_stat = 5, int_stat = 13, wis = 12, lck = 8\<rparr>,
     primaryGrowth = \<lparr>str = 5/100, dex = 20/100, agi = 15/100, vit = 20/100,
                      end_stat = 10/100, int_stat = 80/100, wis = 70/100, lck = 30/100\<rparr>,
     secondaryGrowth = \<lparr>str = 5/100, dex = 10/100, agi = 10/100, vit = 10/100,
                        end_stat = 5/100, int_stat = 35/100, wis = 30/100, lck = 15/100\<rparr>\<rparr>"
| "CLASS_DEFINITIONS Tidecaller = \<lparr>
     cd_name = ''Tidecaller'', role = ''Merchant'',
     primaryStats = (S_agi, S_lck), cd_profession = Fishing,
     baseStats = \<lparr>str = 6, dex = 8, agi = 11, vit = 7,
                  end_stat = 6, int_stat = 8, wis = 7, lck = 12\<rparr>,
     primaryGrowth = \<lparr>str = 15/100, dex = 30/100, agi = 70/100, vit = 20/100,
                      end_stat = 15/100, int_stat = 25/100, wis = 20/100, lck = 75/100\<rparr>,
     secondaryGrowth = \<lparr>str = 10/100, dex = 15/100, agi = 30/100, vit = 10/100,
                        end_stat = 10/100, int_stat = 15/100, wis = 10/100, lck = 30/100\<rparr>\<rparr>"
| "CLASS_DEFINITIONS Sparkwright = \<lparr>
     cd_name = ''Sparkwright'', role = ''Builder'',
     primaryStats = (S_int, S_dex), cd_profession = Mining,
     baseStats = \<lparr>str = 7, dex = 11, agi = 6, vit = 6,
                  end_stat = 7, int_stat = 13, wis = 7, lck = 8\<rparr>,
     primaryGrowth = \<lparr>str = 20/100, dex = 70/100, agi = 15/100, vit = 15/100,
                      end_stat = 20/100, int_stat = 75/100, wis = 20/100, lck = 30/100\<rparr>,
     secondaryGrowth = \<lparr>str = 10/100, dex = 30/100, agi = 10/100, vit = 10/100,
                        end_stat = 10/100, int_stat = 35/100, wis = 10/100, lck = 15/100\<rparr>\<rparr>"
| "CLASS_DEFINITIONS Hollow = \<lparr>
     cd_name = ''Hollow'', role = ''Phantom'',
     primaryStats = (S_agi, S_str), cd_profession = Fishing,
     baseStats = \<lparr>str = 10, dex = 8, agi = 12, vit = 4,
                  end_stat = 5, int_stat = 9, wis = 6, lck = 11\<rparr>,
     primaryGrowth = \<lparr>str = 65/100, dex = 25/100, agi = 75/100, vit = 5/100,
                      end_stat = 10/100, int_stat = 30/100, wis = 15/100, lck = 45/100\<rparr>,
     secondaryGrowth = \<lparr>str = 25/100, dex = 15/100, agi = 30/100, vit = 5/100,
                        end_stat = 5/100, int_stat = 15/100, wis = 10/100, lck = 20/100\<rparr>\<rparr>"

subsection \<open>Rarity definitions\<close>

text \<open>
  A bonus pass: \<open>count\<close> distinct stats each gain \<open>amount\<close>. The optional flag
  \<^verbatim>\<open>random\<close> of the source is \<open>random_flag\<close>; an absent flag is \<open>False\<close>.
\<close>

record StatBonus =
  count :: nat
  amount :: int
  random_flag :: bool

record RarityDefinition =
  rd_name :: string
  chance :: real
  statBonuses :: "StatBonus list"

fun RARITY_DEFINITIONS :: "Rarity \<Rightarrow> RarityDefinition" where
  "RARITY_DEFINITIONS Common =
     \<lparr>rd_name = ''Common'', chance = 75/100, statBonuses = []\<rparr>"
| "RARITY_DEFINITIONS Uncommon =
     \<lparr>rd_name = ''Uncommon'', chance = 20/100,
      statBonuses = [\<lparr>count = 2, amount = 1, random_flag = False\<rparr>]\<rparr>"
| "RARITY_DEFINITIONS Rare =
     \<lparr>rd_name = ''Rare'', chance = 4/100,
      statBonuses = [\<lparr>count = 3, amount = 1, random_flag = False\<rparr>,
                     \<lparr>count = 1, amount = 1, random_flag = True\<rparr>]\<rparr>"
| "RARITY_DEFINITIONS Legendary =
     \<lparr>rd_name = ''Legendary'', chance = 9/1000,
      statBonuses = [\<lparr>count = 3, amount = 1, random_flag = False\<rparr>,
                     \<lparr>count = 2, amount = 1, random_flag = False\<rparr>,
                     \<lparr>count = 1, amount = 2, random_flag = False\<rparr>]\<rparr>"
| "RARITY_DEFINITIONS Mythic =
     \<lparr>rd_name = ''Mythic'', chance = 1/1000,
      statBonuses = [\<lparr>count = 3, amount = 2, random_flag = False\<rparr>,
                     \<lparr>count = 3, amount = 1, random_flag = False\<rparr>,
                     \<lparr>count = 1, amount = 1, random_flag = False\<rparr>]\<rparr>"

text \<open>The keys of \<^verbatim>\<open>RARITY_DEFINITIONS\<close> in insertion order, as \<^verbatim>\<open>Object.entries\<close>
  enumerates them.\<close>

definition RARITY_KEYS :: "Rarity list" where
  "RARITY_KEYS = [Common, Uncommon, Rare, Legendary, Mythic]"

subsection \<open>Stat helpers of classes.ts\<close>

text \<open>
  \<^verbatim>\<open>rollRarity\<close>: one draw, then the entries of the registry in insertion order; the
  running sum \<open>cumulative\<close> grows by each entry's chance, and the first entry whose
  running sum exceeds the draw is returned. The fall-through result is common.
\<close>

fun rollRarity_loop :: "real \<Rightarrow> real \<Rightarrow> Rarity list \<Rightarrow> Rarity" where
  "rollRarity_loop roll cumulative [] = Common"
| "rollRarity_loop roll cumulative (rarity # rest) =
     (let cumulative' = cumulative + chance (RARITY_DEFINITIONS rarity)
      in if roll < cumulative' then rarity else rollRarity_loop roll cumulative' rest)"

definition rollRarity :: "rng \<Rightarrow> Rarity \<times> rng" where
  "rollRarity g =
     (let (roll, g1) = Math_random g
      in (rollRarity_loop (draw_val roll) 0 RARITY_KEYS, g1))"

text \<open>
  \<^verbatim>\<open>generateBaseStats\<close>: a copy of the class's base stats; then, for each key in the
  order of \<^verbatim>\<open>STAT_KEYS\<close>, one draw gives the variance
  \<^verbatim>\<open>Math.floor(Math.random() * 5) - 2\<close> and the stat becomes
  \<^verbatim>\<open>Math.max(1, stats[key] + variance)\<close>.
\<close>

fun generateBaseStats_loop :: "StatName list \<Rightarrow> SigilStats \<Rightarrow> rng \<Rightarrow> SigilStats \<times> rng" where
  "generateBaseStats_loop [] stats g = (stats, g)"
| "generateBaseStats_loop (key # keys) stats g =
     (let (r, g1) = Math_random g;
          variance = \<lfloor>draw_val r * 5\<rfloor> - 2
      in generateBaseStats_loop keys
           (setStat stats key (max 1 (getStat stats key + variance))) g1)"

definition generateBaseStats :: "SigilClass \<Rightarrow> rng \<Rightarrow> SigilStats \<times> rng" where
  "generateBaseStats sigilClass g =
     generateBaseStats_loop STAT_KEYS (baseStats (CLASS_DEFINITIONS sigilClass)) g"

text \<open>
  \<^verbatim>\<open>applyRarityBonuses\<close>. The inner loop runs \<open>count\<close> times unless the list
  \<open>available\<close> runs empty first; each round draws an index into \<open>available\<close>
  (both branches of the source's conditional on \<^verbatim>\<open>bonus.random\<close> compute the same
  index), splices that key out and adds the pass's amount to that stat. The first
  argument of \<open>applyRarityBonuses_pick\<close> is the number of rounds still to run. The
  outer loop starts every pass from a fresh copy of \<^verbatim>\<open>STAT_KEYS\<close>.
\<close>

definition splice1 :: "'a list \<Rightarrow> nat \<Rightarrow> 'a list" where
  "splice1 xs idx = take idx xs @ drop (Suc idx) xs"

fun applyRarityBonuses_pick ::
  "nat \<Rightarrow> StatBonus \<Rightarrow> StatName list \<Rightarrow> SigilStats \<Rightarrow> rng \<Rightarrow> SigilStats \<times> rng" where
  "applyRarityBonuses_pick 0 bonus available result g = (result, g)"
| "applyRarityBonuses_pick (Suc n) bonus available result g =
     (if available = [] then (result, g)
      else
        let (r, g1) = Math_random g;
            idx = (if random_flag bonus
                   then nat \<lfloor>draw_val r * real (length available)\<rfloor>
                   else nat \<lfloor>draw_val r * real (length available)\<rfloor>);
            stat = available ! idx
        in applyRarityBonuses_pick n bonus (splice1 available idx)
             (setStat result stat (getStat result stat + amount bonus)) g1)"

fun applyRarityBonuses_passes :: "StatBonus list \<Rightarrow> SigilStats \<Rightarrow> rng \<Rightarrow> SigilStats \<times> rng" where
  "applyRarityBonuses_passes [] result g = (result, g)"
| "applyRarityBonuses_passes (bonus # rest) result g =
     (let (result1, g1) = applyRarityBonuses_pick (count bonus) bonus STAT_KEYS result g
      in applyRarityBonuses_passes rest result1 g1)"

definition applyRarityBonuses :: "SigilStats \<Rightarrow> Rarity \<Rightarrow> rng \<Rightarrow> SigilStats \<times> rng" where
  "applyRarityBonuses stats rarity g =
     applyRarityBonuses_passes (statBonuses (RARITY_DEFINITIONS rarity)) stats g"

text \<open>
  \<^verbatim>\<open>rollStatGrowth\<close>: for each key, a draw against the primary rate and then a draw
  against the secondary rate; each success adds one.
\<close>

fun rollStatGrowth_loop ::
  "StatName list \<Rightarrow> StatGrowthRates \<Rightarrow> StatGrowthRates \<Rightarrow> SigilStats \<Rightarrow> rng
     \<Rightarrow> SigilStats \<times> rng" where
  "rollStatGrowth_loop [] pg sg result g = (result, g)"
| "rollStatGrowth_loop (key # keys) pg sg result g =
     (let (r1, g1) = Math_random g;
          result1 = (if draw_val r1 < getStat pg key
                     then setStat result key (getStat result key + 1) else result);
          (r2, g2) = Math_random g1;
          result2 = (if draw_val r2 < getStat sg key
                     then setStat result1 key (getStat result1 key + 1) else result1)
      in rollStatGrowth_loop keys pg sg result2 g2)"

definition rollStatGrowth ::
  "SigilStats \<Rightarrow> StatGrowthRates \<Rightarrow> StatGrowthRates \<Rightarrow> rng \<Rightarrow> SigilStats \<times> rng" where
  "rollStatGrowth currentStats primaryGrowth' secondaryGrowth' g =
     rollStatGrowth_loop STAT_KEYS primaryGrowth' secondaryGrowth' currentStats g"

definition calculateMaxHp :: "SigilStats \<Rightarrow> int \<Rightarrow> int" where
  "calculateMaxHp stats level = 50 + (vit stats * 5) + (level * 10)"

definition calculateMaxMp :: "SigilStats \<Rightarrow> int \<Rightarrow> int" where
  "calculateMaxMp stats level = 25 + (int_stat stats * 3) + (wis stats * 2) + (level * 5)"

definition calculateMaxStamina :: "int \<Rightarrow> int" where
  "calculateMaxStamina level = (let bonus = level div 2 in min (25 + bonus) 50)"

definition xpForLevel :: "int \<Rightarrow> int" where
  "xpForLevel level =
     (if level \<le> 0 then 0 else \<lfloor>100 * (11/10 :: real) ^ nat (level - 1)\<rfloor>)"

subsection \<open>Genetics\<close>

record 'a GeneLayers =
  dominant :: 'a
  recessive :: 'a
  hidden :: 'a

record SigilGenome =
  g_class :: "SigilClass GeneLayers"
  g_subclass :: "SigilClass GeneLayers"
  g_profession :: "Profession GeneLayers"
  activeAbility :: "ActiveAbility GeneLayers"
  passiveAbility :: "PassiveAbility GeneLayers"
  statBoost :: "StatName GeneLayers"

definition CLASSES :: "SigilClass list" where
  "CLASSES = [Ember, Thorn, Veil, Tidecaller, Sparkwright, Hollow]"

definition PROFESSIONS :: "Profession list" where
  "PROFESSIONS = [Mining, Fishing, Foraging, Gardening]"

definition ACTIVE_ABILITIES :: "ActiveAbility list" where
  "ACTIVE_ABILITIES =
     [Power_strike, Keen_eye, Swift_hands, Iron_will,
      Deep_focus, Lucky_find, Second_wind, Elemental_surge]"

definition PASSIVE_ABILITIES :: "PassiveAbility list" where
  "PASSIVE_ABILITIES =
     [Sturdy, Nimble, Scholar, Harvester, Enduring, Fortunate, Resilient, Prodigy]"

definition STAT_NAMES :: "StatName list" where
  "STAT_NAMES = [S_str, S_dex, S_agi, S_vit, S_end, S_int, S_wis, S_lck]"

definition DOMINANT_CHANCE :: real where "DOMINANT_CHANCE = 75/100"
definition RECESSIVE_CHANCE :: real where "RECESSIVE_CHANCE = 1875/10000"
definition HIDDEN_CHANCE :: real where "HIDDEN_CHANCE = 625/10000"
definition MUTATION_RATE :: real where "MUTATION_RATE = 2/100"

text \<open>
  \<^verbatim>\<open>randomFrom(arr)\<close> is \<^verbatim>\<open>arr[Math.floor(Math.random() * arr.length)]\<close>. The index
  is in range whenever the array is not empty; the function is private to the module
  and its callers pass the five constant pools above. (On an empty array the source
  yields \<^verbatim>\<open>undefined\<close>; the statements below that mention \<open>randomFrom\<close> assume a
  pool that is not empty.)
\<close>

definition randomFrom :: "'a list \<Rightarrow> rng \<Rightarrow> 'a \<times> rng" where
  "randomFrom arr g =
     (let (r, g1) = Math_random g
      in (arr ! nat \<lfloor>draw_val r * real (length arr)\<rfloor>, g1))"

definition selectGene :: "'a GeneLayers \<Rightarrow> rng \<Rightarrow> 'a \<times> rng" where
  "selectGene layers g =
     (let (roll, g1) = Math_random g
      in (if draw_val roll < DOMINANT_CHANCE then dominant layers
          else if draw_val roll < DOMINANT_CHANCE + RECESSIVE_CHANCE then recessive layers
          else hidden layers, g1))"

definition maybeMutate :: "'a \<Rightarrow> 'a list \<Rightarrow> rng \<Rightarrow> 'a \<times> rng" where
  "maybeMutate gene pool g =
     (let (r, g1) = Math_random g
      in if draw_val r < MUTATION_RATE then randomFrom pool g1 else (gene, g1))"

text \<open>
  \<^verbatim>\<open>inheritSlot\<close>: the three statements, then the three properties of the returned
  object literal, evaluated in the order they are written.
\<close>

definition inheritSlot ::
  "'a GeneLayers \<Rightarrow> 'a GeneLayers \<Rightarrow> 'a list \<Rightarrow> rng \<Rightarrow> 'a GeneLayers \<times> rng" where
  "inheritSlot p1 p2 pool g =
     (let (fromP1, g1) = selectGene p1 g;
          (fromP2, g2) = selectGene p2 g1;
          (hidden', g3) = randomFrom pool g2;
          (d, g4) = maybeMutate fromP1 pool g3;
          (r, g5) = maybeMutate fromP2 pool g4;
          (h, g6) = maybeMutate hidden' pool g5
      in (\<lparr>dominant = d, recessive = r, hidden = h\<rparr>, g6))"

definition inheritGenes :: "SigilGenome \<Rightarrow> SigilGenome \<Rightarrow> rng \<Rightarrow> SigilGenome \<times> rng" where
  "inheritGenes parent1 parent2 g =
     (let (c, g1) = inheritSlot (g_class parent1) (g_class parent2) CLASSES g;
          (s, g2) = inheritSlot (g_subclass parent1) (g_subclass parent2) CLASSES g1;
          (p, g3) = inheritSlot (g_profession parent1) (g_profession parent2) PROFESSIONS g2;
          (a, g4) = inheritSlot (activeAbility parent1) (activeAbility parent2)
                      ACTIVE_ABILITIES g3;
          (v, g5) = inheritSlot (passiveAbility parent1) (passiveAbility parent2)
                      PASSIVE_ABILITIES g4;
          (b, g6) = inheritSlot (statBoost parent1) (statBoost parent2) STAT_NAMES g5
      in (\<lparr>g_class = c, g_subclass = s, g_profession = p,
           activeAbility = a, passiveAbility = v, statBoost = b\<rparr>, g6))"

text \<open>
  \<^verbatim>\<open>areTooRelated\<close>. A parent pair is \<open>None\<close> for \<^verbatim>\<open>null\<close>;
  \<^verbatim>\<open>pair.includes(x)\<close> on a two-element array is the disjunction of two equalities.
\<close>

definition includes2 :: "string \<times> string \<Rightarrow> string \<Rightarrow> bool" where
  "includes2 pair x = (fst pair = x \<or> snd pair = x)"

definition areTooRelated ::
  "(string \<times> string) option \<Rightarrow> (string \<times> string) option \<Rightarrow> string \<Rightarrow> string \<Rightarrow> bool" where
  "areTooRelated sigil1ParentIds sigil2ParentIds sigil1Id sigil2Id =
     (if (case sigil1ParentIds of None \<Rightarrow> False | Some ps1 \<Rightarrow> includes2 ps1 sigil2Id)
      then True
      else if (case sigil2ParentIds of None \<Rightarrow> False | Some ps2 \<Rightarrow> includes2 ps2 sigil1Id)
      then True
      else
        (case (sigil1ParentIds, sigil2ParentIds) of
           (Some ps1, Some ps2) \<Rightarrow>
             (let sameParents = (fst ps1 = fst ps2 \<and> snd ps1 = snd ps2);
                  swappedParents = (fst ps1 = snd ps2 \<and> snd ps1 = fst ps2)
              in if sameParents \<or> swappedParents then True else False)
         | _ \<Rightarrow> False))"

subsection \<open>Profiles\<close>

type_synonym timestamp = int

text \<open>
  \<^verbatim>\<open>SigilProfile\<close>, with the fields of the object literal in \<^verbatim>\<open>executeSummon\<close>. The
  type parameter is the representation of the \<^verbatim>\<open>stats\<close> field: a stat block where
  profiles are values, an address where they are objects in a store (see the store
  model below). \<^verbatim>\<open>parentIds\<close> and \<^verbatim>\<open>summonCooldownEnd\<close> are nullable.
\<close>

record 's SigilProfile =
  sigil_id :: string
  name :: string
  sigil_class :: SigilClass
  sigil_subclass :: SigilClass
  rarity :: Rarity
  generation :: int
  level :: int
  xp :: int
  xpToNextLevel :: int
  stats :: 's
  statGrowthPrimary :: StatGrowthRates
  statGrowthSecondary :: StatGrowthRates
  genes :: SigilGenome
  profession :: Profession
  professionSkillLevel :: int
  stamina :: int
  maxStamina :: int
  hp :: int
  maxHp :: int
  mp :: int
  maxMp :: int
  summonsRemaining :: int
  maxSummons :: int
  summonCooldownEnd :: "timestamp option"
  parentIds :: "(string \<times> string) option"
  owner :: string
  createdAt :: timestamp

type_synonym Profile = "SigilStats SigilProfile"

record SummonRecord =
  sr_id :: string
  parent1Id :: string
  parent2Id :: string
  offspringId :: string
  sr_cost :: int
  sr_generation :: int
  sr_timestamp :: timestamp

subsection \<open>Summoning: cost and cooldown\<close>

definition BASE_COST :: int where "BASE_COST = 2000"
definition COST_PER_SUMMON :: int where "COST_PER_SUMMON = 1000"
definition COST_PER_GENERATION :: int where "COST_PER_GENERATION = 500"
definition GEN0_BASE_COOLDOWN_HOURS :: int where "GEN0_BASE_COOLDOWN_HOURS = 4"
definition GEN0_COOLDOWN_INCREMENT_HOURS :: int where "GEN0_COOLDOWN_INCREMENT_HOURS = 4"
definition GEN0_MAX_SUMMONS :: int where "GEN0_MAX_SUMMONS = 10"

definition parentCost :: "'s SigilProfile \<Rightarrow> int" where
  "parentCost parent =
     (let summonsUsed = maxSummons parent - summonsRemaining parent
      in BASE_COST
         + (COST_PER_SUMMON * summonsUsed)
         + (COST_PER_GENERATION * generation parent))"

definition calculateSummonCost :: "'s SigilProfile \<Rightarrow> 's SigilProfile \<Rightarrow> int" where
  "calculateSummonCost parent1 parent2 =
     (let cost1 = parentCost parent1;
          cost2 = parentCost parent2
      in max cost1 cost2)"

definition cooldownHours :: "'s SigilProfile \<Rightarrow> int" where
  "cooldownHours parent =
     (let summonsUsed = maxSummons parent - summonsRemaining parent
      in if generation parent = 0
         then GEN0_BASE_COOLDOWN_HOURS + (GEN0_COOLDOWN_INCREMENT_HOURS * summonsUsed)
         else (24 + 8 * generation parent) * (summonsUsed + 1))"

definition cooldownEndTime :: "timestamp \<Rightarrow> 's SigilProfile \<Rightarrow> timestamp" where
  "cooldownEndTime now parent =
     (let hours = cooldownHours parent
      in now + hours * 60 * 60 * 1000)"

subsection \<open>Summoning: eligibility\<close>

text \<open>
  The reason of a refusal is a message built from a template; the datatype has one
  constructor per template, with the values the template interpolates:
  \<^item> \<open>CannotSummonWithSelf\<close>: \<^verbatim>\<open>Cannot summon with self\<close>;
  \<^item> \<open>TooCloselyRelated\<close>:
    \<^verbatim>\<open>Parents are too closely related (siblings or parent-child)\<close>;
  \<^item> \<open>NoSummonsRemaining n\<close>: \<^verbatim>\<open>${n} has no summons remaining\<close>;
  \<^item> \<open>OnCooldownUntil n t\<close>: \<^verbatim>\<open>${n} is on cooldown until ${t}\<close>.
\<close>

datatype SummonReason =
  CannotSummonWithSelf
  | TooCloselyRelated
  | NoSummonsRemaining string
  | OnCooldownUntil string timestamp

record SummonEligibility =
  eligible :: bool
  reason :: "SummonReason option"
  elig_cost :: "int option"
  cooldownHoursP1 :: "int option"
  cooldownHoursP2 :: "int option"

definition ineligible :: "SummonReason \<Rightarrow> SummonEligibility" where
  "ineligible why =
     \<lparr>eligible = False, reason = Some why, elig_cost = None,
      cooldownHoursP1 = None, cooldownHoursP2 = None\<rparr>"

text \<open>
  \<open>onCooldown now e\<close> is the test
  \<^verbatim>\<open>parent.summonCooldownEnd && new Date(parent.summonCooldownEnd) > new Date()\<close>,
  with \<open>now\<close> the instant that \<^verbatim>\<open>new Date()\<close> reads. \<open>now1\<close> and \<open>now2\<close> are
  the instants read for the first and for the second parent. The cooldown message
  interpolates the field \<^verbatim>\<open>summonCooldownEnd\<close>; it is built only in a branch where
  the test has found the field set, so \<open>the\<close> is applied to a \<open>Some\<close> there.
\<close>

definition onCooldown :: "timestamp \<Rightarrow> timestamp option \<Rightarrow> bool" where
  "onCooldown now e = (case e of None \<Rightarrow> False | Some t \<Rightarrow> t > now)"

definition checkSummonEligibility ::
  "timestamp \<Rightarrow> timestamp \<Rightarrow> 's SigilProfile \<Rightarrow> 's SigilProfile \<Rightarrow> SummonEligibility" where
  "checkSummonEligibility now1 now2 parent1 parent2 =
     (if sigil_id parent1 = sigil_id parent2 then ineligible CannotSummonWithSelf
      else if areTooRelated (parentIds parent1) (parentIds parent2)
                (sigil_id parent1) (sigil_id parent2)
      then ineligible TooCloselyRelated
      else if summonsRemaining parent1 \<le> 0
      then ineligible (NoSummonsRemaining (name parent1))
      else if summonsRemaining parent2 \<le> 0
      then ineligible (NoSummonsRemaining (name parent2))
      else if onCooldown now1 (summonCooldownEnd parent1)
      then ineligible (OnCooldownUntil (name parent1) (the (summonCooldownEnd parent1)))
      else if onCooldown now2 (summonCooldownEnd parent2)
      then ineligible (OnCooldownUntil (name parent2) (the (summonCooldownEnd parent2)))
      else
        (let cost = calculateSummonCost parent1 parent2
         in \<lparr>eligible = True, reason = None, elig_cost = Some cost,
             cooldownHoursP1 = Some (cooldownHours parent1),
             cooldownHoursP2 = Some (cooldownHours parent2)\<rparr>))"

subsection \<open>Summoning: rarity of the offspring\<close>

definition RARITY_TIERS :: "Rarity list" where
  "RARITY_TIERS = [Common, Uncommon, Rare, Legendary, Mythic]"

fun indexOf_from :: "'a list \<Rightarrow> 'a \<Rightarrow> int \<Rightarrow> int" where
  "indexOf_from [] x i = - 1"
| "indexOf_from (y # ys) x i = (if y = x then i else indexOf_from ys x (i + 1))"

definition indexOf :: "'a list \<Rightarrow> 'a \<Rightarrow> int" where
  "indexOf xs x = indexOf_from xs x 0"

definition rollOffspringRarity :: "Rarity \<Rightarrow> Rarity \<Rightarrow> rng \<Rightarrow> Rarity \<times> rng" where
  "rollOffspringRarity p1Rarity p2Rarity g =
     (let p1Tier = indexOf RARITY_TIERS p1Rarity;
          p2Tier = indexOf RARITY_TIERS p2Rarity;
          avgTier = (real_of_int p1Tier + real_of_int p2Tier) / 2;
          (r, g1) = Math_random g;
          roll = draw_val r;
          bonus = avgTier * (3/100)
      in (if roll < 1/1000 + bonus * (1/100) then Mythic
          else if roll < 9/1000 + bonus * (5/100) then Legendary
          else if roll < 4/100 + bonus * (10/100) then Rare
          else if roll < 20/100 + bonus * (15/100) then Uncommon
          else Common, g1))"

subsection \<open>Summoning: execution\<close>

record SummonResult =
  offspring :: Profile
  summon_record :: SummonRecord
  result_cost :: int

text \<open>
  \<^verbatim>\<open>executeSummon\<close> on profile values. \<open>offspringId'\<close> and \<open>recordId\<close> are the
  results of the two calls of \<^verbatim>\<open>ulid()\<close>, \<open>now1\<close> and \<open>now2\<close> the instants of the
  two clock reads, in the order of the source. The draws are consumed in the order
  of the calls: the genome, the rarity, the base stats, the rarity bonuses.
\<close>

definition executeSummon ::
  "Profile \<Rightarrow> Profile \<Rightarrow> string \<Rightarrow> string \<Rightarrow> string \<Rightarrow> string \<Rightarrow> timestamp \<Rightarrow> timestamp
     \<Rightarrow> rng \<Rightarrow> SummonResult \<times> rng" where
  "executeSummon parent1 parent2 offspringName owner' offspringId' recordId now1 now2 g =
     (let cost = calculateSummonCost parent1 parent2;
          generation' = max (generation parent1) (generation parent2) + 1;
          (genes', g1) = inheritGenes (genes parent1) (genes parent2) g;
          sigilClass = dominant (g_class genes');
          subclass' = dominant (g_subclass genes');
          (rarity', g2) = rollOffspringRarity (rarity parent1) (rarity parent2) g1;
          (stats0, g3) = generateBaseStats sigilClass g2;
          boostedStat = dominant (statBoost genes');
          stats1 = setStat stats0 boostedStat (getStat stats0 boostedStat + 2);
          (stats2, g4) = (if rarity' \<noteq> Common then applyRarityBonuses stats1 rarity' g3
                          else (stats1, g3));
          weakerParentSummons = min (summonsRemaining parent1) (summonsRemaining parent2);
          maxSummons' = max 1 (weakerParentSummons - 1);
          offspring' = \<lparr>
            sigil_id = offspringId',
            name = offspringName,
            sigil_class = sigilClass,
            sigil_subclass = subclass',
            rarity = rarity',
            generation = generation',
            level = 1,
            xp = 0,
            xpToNextLevel = xpForLevel 1,
            stats = stats2,
            statGrowthPrimary = primaryGrowth (CLASS_DEFINITIONS sigilClass),
            statGrowthSecondary = secondaryGrowth (CLASS_DEFINITIONS subclass'),
            genes = genes',
            profession = dominant (g_profession genes'),
            professionSkillLevel = 0,
            stamina = 25,
            maxStamina = calculateMaxStamina 1,
            hp = calculateMaxHp stats2 1,
            maxHp = calculateMaxHp stats2 1,
            mp = calculateMaxMp stats2 1,
            maxMp = calculateMaxMp stats2 1,
            summonsRemaining = maxSummons',
            maxSummons = maxSummons',
            summonCooldownEnd = None,
            parentIds = Some (sigil_id parent1, sigil_id parent2),
            owner = owner',
            createdAt = now1\<rparr>;
          record' = \<lparr>
            sr_id = recordId,
            parent1Id = sigil_id parent1,
            parent2Id = sigil_id parent2,
            offspringId = offspringId',
            sr_cost = cost,
            sr_generation = generation',
            sr_timestamp = now2\<rparr>
      in (\<lparr>offspring = offspring', summon_record = record', result_cost = cost\<rparr>, g4))"

text \<open>
  \<^verbatim>\<open>applySummonToParent\<close> mutates its argument; the model returns the profile after
  the two assignments. The second assignment reads the profile after the first.
\<close>

definition applySummonToParent :: "timestamp \<Rightarrow> 's SigilProfile \<Rightarrow> 's SigilProfile" where
  "applySummonToParent now parent =
     (let parent1 = parent\<lparr>summonsRemaining := summonsRemaining parent - 1\<rparr>
      in parent1\<lparr>summonCooldownEnd := Some (cooldownEndTime now parent1)\<rparr>)"

subsection \<open>The store model\<close>

text \<open>
  In the source a profile is an object, its \<^verbatim>\<open>stats\<close> field is a reference to a
  stat-block object, and the stat helpers assign to stat-block objects in place. The
  store model makes the references explicit, so that a statement about what a call
  leaves untouched can be made.

  A store holds the stat-block objects and the profile objects; the address of an
  object is its index. \<open>alloc\<close> is an object literal or a spread copy: the new
  object gets the next address. \<open>heap_put h a k v\<close> is the assignment
  \<^verbatim>\<open>obj[k] = v\<close> through the reference \<open>a\<close>. The genome of a profile is kept by
  value: no function of the three modules assigns to a genome or to a gene slot.
\<close>

type_synonym addr = nat

type_synonym ProfileObj = "addr SigilProfile"

record store =
  statObjs :: "SigilStats list"
  profObjs :: "ProfileObj list"

definition alloc :: "SigilStats list \<Rightarrow> SigilStats \<Rightarrow> addr \<times> SigilStats list" where
  "alloc h v = (length h, h @ [v])"

definition heap_get :: "SigilStats list \<Rightarrow> addr \<Rightarrow> StatName \<Rightarrow> int" where
  "heap_get h a k = getStat (h ! a) k"

definition heap_put :: "SigilStats list \<Rightarrow> addr \<Rightarrow> StatName \<Rightarrow> int \<Rightarrow> SigilStats list" where
  "heap_put h a k v = h[a := setStat (h ! a) k v]"

fun generateBaseStats_loop_st ::
  "StatName list \<Rightarrow> addr \<Rightarrow> SigilStats list \<Rightarrow> rng \<Rightarrow> SigilStats list \<times> rng" where
  "generateBaseStats_loop_st [] a h g = (h, g)"
| "generateBaseStats_loop_st (key # keys) a h g =
     (let (r, g1) = Math_random g;
          variance = \<lfloor>draw_val r * 5\<rfloor> - 2
      in generateBaseStats_loop_st keys a
           (heap_put h a key (max 1 (heap_get h a key + variance))) g1)"

definition generateBaseStats_st ::
  "SigilClass \<Rightarrow> SigilStats list \<Rightarrow> rng \<Rightarrow> addr \<times> SigilStats list \<times> rng" where
  "generateBaseStats_st sigilClass h g =
     (let (a, h1) = alloc h (baseStats (CLASS_DEFINITIONS sigilClass));
          (h2, g1) = generateBaseStats_loop_st STAT_KEYS a h1 g
      in (a, h2, g1))"

fun applyRarityBonuses_pick_st ::
  "nat \<Rightarrow> StatBonus \<Rightarrow> StatName list \<Rightarrow> addr \<Rightarrow> SigilStats list \<Rightarrow> rng
     \<Rightarrow> SigilStats list \<times> rng" where
  "applyRarityBonuses_pick_st 0 bonus available a h g = (h, g)"
| "applyRarityBonuses_pick_st (Suc n) bonus available a h g =
     (if available = [] then (h, g)
      else
        let (r, g1) = Math_random g;
            idx = (if random_flag bonus
                   then nat \<lfloor>draw_val r * real (length available)\<rfloor>
                   else nat \<lfloor>draw_val r * real (length available)\<rfloor>);
            stat = available ! idx
        in applyRarityBonuses_pick_st n bonus (splice1 available idx) a
             (heap_put h a stat (heap_get h a stat + amount bonus)) g1)"

fun applyRarityBonuses_passes_st ::
  "StatBonus list \<Rightarrow> addr \<Rightarrow> SigilStats list \<Rightarrow> rng \<Rightarrow> SigilStats list \<times> rng" where
  "applyRarityBonuses_passes_st [] a h g = (h, g)"
| "applyRarityBonuses_passes_st (bonus # rest) a h g =
     (let (h1, g1) = applyRarityBonuses_pick_st (count bonus) bonus STAT_KEYS a h g
      in applyRarityBonuses_passes_st rest a h1 g1)"

definition applyRarityBonuses_st ::
  "addr \<Rightarrow> Rarity \<Rightarrow> SigilStats list \<Rightarrow> rng \<Rightarrow> addr \<times> SigilStats list \<times> rng" where
  "applyRarityBonuses_st stats' rarity' h g =
     (let (result, h1) = alloc h (h ! stats');
          (h2, g1) = applyRarityBonuses_passes_st
                       (statBonuses (RARITY_DEFINITIONS rarity')) result h1 g
      in (result, h2, g1))"

record SummonResult_st =
  offspring_obj :: ProfileObj
  summon_record_st :: SummonRecord
  result_cost_st :: int

text \<open>
  \<^verbatim>\<open>executeSummon\<close> on the store: \<open>p1\<close> and \<open>p2\<close> are the addresses of the two
  parent objects. The body is that of the source, statement by statement; the only
  assignments through a reference are those of \<^verbatim>\<open>generateBaseStats\<close>, of
  \<^verbatim>\<open>stats[boostedStat] += 2\<close> and of \<^verbatim>\<open>applyRarityBonuses\<close>. The offspring object
  is returned in the result; its \<open>stats\<close> field is the address of its stat block.
\<close>

definition executeSummon_st ::
  "addr \<Rightarrow> addr \<Rightarrow> string \<Rightarrow> string \<Rightarrow> string \<Rightarrow> string \<Rightarrow> timestamp \<Rightarrow> timestamp
     \<Rightarrow> rng \<Rightarrow> store \<Rightarrow> SummonResult_st \<times> rng \<times> store" where
  "executeSummon_st p1 p2 offspringName owner' offspringId' recordId now1 now2 g st =
     (let parent1 = profObjs st ! p1;
          parent2 = profObjs st ! p2;
          h = statObjs st;
          cost = calculateSummonCost parent1 parent2;
          generation' = max (generation parent1) (generation parent2) + 1;
          (genes', g1) = inheritGenes (genes parent1) (genes parent2) g;
          sigilClass = dominant (g_class genes');
          subclass' = dominant (g_subclass genes');
          (rarity', g2) = rollOffspringRarity (rarity parent1) (rarity parent2) g1;
          (stats0, h1, g3) = generateBaseStats_st sigilClass h g2;
          boostedStat = dominant (statBoost genes');
          h2 = heap_put h1 stats0 boostedStat (heap_get h1 stats0 boostedStat + 2);
          (stats2, h3, g4) = (if rarity' \<noteq> Common then applyRarityBonuses_st stats0 rarity' h2 g3
                              else (stats0, h2, g3));
          weakerParentSummons = min (summonsRemaining parent1) (summonsRemaining parent2);
          maxSummons' = max 1 (weakerParentSummons - 1);
          offspring' = \<lparr>
            sigil_id = offspringId',
            name = offspringName,
            sigil_class = sigilClass,
            sigil_subclass = subclass',
            rarity = rarity',
            generation = generation',
            level = 1,
            xp = 0,
            xpToNextLevel = xpForLevel 1,
            stats = stats2,
            statGrowthPrimary = primaryGrowth (CLASS_DEFINITIONS sigilClass),
            statGrowthSecondary = secondaryGrowth (CLASS_DEFINITIONS subclass'),
            genes = genes',
            profession = dominant (g_profession genes'),
            professionSkillLevel = 0,
            stamina = 25,
            maxStamina = calculateMaxStamina 1,
            hp = calculateMaxHp (h3 ! stats2) 1,
            maxHp = calculateMaxHp (h3 ! stats2) 1,
            mp = calculateMaxMp (h3 ! stats2) 1,
            maxMp = calculateMaxMp (h3 ! stats2) 1,
            summonsRemaining = maxSummons',
            maxSummons = maxSummons',
            summonCooldownEnd = None,
            parentIds = Some (sigil_id parent1, sigil_id parent2),
            owner = owner',
            createdAt = now1\<rparr>;
          record' = \<lparr>
            sr_id = recordId,
            parent1Id = sigil_id parent1,
            parent2Id = sigil_id parent2,
            offspringId = offspringId',
            sr_cost = cost,
            sr_generation = generation',
            sr_timestamp = now2\<rparr>
      in (\<lparr>offspring_obj = offspring', summon_record_st = record', result_cost_st = cost\<rparr>,
          g4, st\<lparr>statObjs := h3\<rparr>))"

text \<open>
  \<open>load h p\<close> reads a profile object as a profile value: every field is copied and
  the \<open>stats\<close> reference is followed in the heap \<open>h\<close>.
\<close>

definition load :: "SigilStats list \<Rightarrow> ProfileObj \<Rightarrow> Profile" where
  "load h p = \<lparr>
     sigil_id = sigil_id p,
     name = name p,
     sigil_class = sigil_class p,
     sigil_subclass = sigil_subclass p,
     rarity = rarity p,
     generation = generation p,
     level = level p,
     xp = xp p,
     xpToNextLevel = xpToNextLevel p,
     stats = h ! stats p,
     statGrowthPrimary = statGrowthPrimary p,
     statGrowthSecondary = statGrowthSecondary p,
     genes = genes p,
     profession = profession p,
     professionSkillLevel = professionSkillLevel p,
     stamina = stamina p,
     maxStamina = maxStamina p,
     hp = hp p,
     maxHp = maxHp p,
     mp = mp p,
     maxMp = maxMp p,
     summonsRemaining = summonsRemaining p,
     maxSummons = maxSummons p,
     summonCooldownEnd = summonCooldownEnd p,
     parentIds = parentIds p,
     owner = owner p,
     createdAt = createdAt p\<rparr>"

definition load_at :: "store \<Rightarrow> addr \<Rightarrow> Profile" where
  "load_at st a = load (statObjs st) (profObjs st ! a)"

subsection \<open>Vocabulary of the statements\<close>

text \<open>
  Relatedness in the words of the specification: either profile is the other's
  recorded parent, or both have a recorded parent pair and the two pairs are equal
  as unordered pairs. It is compared with \<open>areTooRelated\<close> below.
\<close>

definition related_spec :: "'s SigilProfile \<Rightarrow> 's SigilProfile \<Rightarrow> bool" where
  "related_spec p1 p2 =
     ((case parentIds p1 of None \<Rightarrow> False | Some (a, b) \<Rightarrow> sigil_id p2 \<in> {a, b})
      \<or> (case parentIds p2 of None \<Rightarrow> False | Some (c, d) \<Rightarrow> sigil_id p1 \<in> {c, d})
      \<or> (case (parentIds p1, parentIds p2) of
            (Some (a, b), Some (c, d)) \<Rightarrow> {a, b} = {c, d}
          | _ \<Rightarrow> False))"

text \<open>The invariant of the summon budget of a profile.\<close>

definition summons_inv :: "'s SigilProfile \<Rightarrow> bool" where
  "summons_inv p =
     (0 \<le> summonsRemaining p \<and> summonsRemaining p \<le> maxSummons p \<and> 1 \<le> maxSummons p)"

text \<open>
  The draws that remain after one call of \<open>maybeMutate\<close> (one draw, and a second
  one when the mutation fires) and after one call of \<open>inheritSlot\<close> (three draws,
  then three calls of \<open>maybeMutate\<close>). Neither depends on a gene value.
\<close>

definition maybeMutate_rest :: "rng \<Rightarrow> rng" where
  "maybeMutate_rest g = (if draw_val (shd g) < 2/100 then stl (stl g) else stl g)"

definition inheritSlot_rest :: "rng \<Rightarrow> rng" where
  "inheritSlot_rest g = maybeMutate_rest (maybeMutate_rest (maybeMutate_rest (sdrop 3 g)))"

subsection \<open>Concrete profiles\<close>

text \<open>
  Values at which the statements are instantiated: a genome with three distinct
  layers in every slot; a generation-0 profile builder with the full budget of ten
  summons; two roots \<open>A\<close> and \<open>B\<close>; two children of \<open>A\<close> and \<open>B\<close> recorded in
  either order; a generation-1 profile of other parents; and a store that holds the
  two roots as objects.
\<close>

definition demo_genome :: SigilGenome where
  "demo_genome = \<lparr>
     g_class = \<lparr>dominant = Ember, recessive = Thorn, hidden = Veil\<rparr>,
     g_subclass = \<lparr>dominant = Hollow, recessive = Ember, hidden = Thorn\<rparr>,
     g_profession = \<lparr>dominant = Mining, recessive = Fishing, hidden = Foraging\<rparr>,
     activeAbility = \<lparr>dominant = Power_strike, recessive = Keen_eye, hidden = Swift_hands\<rparr>,
     passiveAbility = \<lparr>dominant = Sturdy, recessive = Nimble, hidden = Scholar\<rparr>,
     statBoost = \<lparr>dominant = S_str, recessive = S_dex, hidden = S_agi\<rparr>\<rparr>"

definition mk_root :: "string \<Rightarrow> string \<Rightarrow> 's \<Rightarrow> 's SigilProfile" where
  "mk_root i n s = \<lparr>
     sigil_id = i,
     name = n,
     sigil_class = Ember,
     sigil_subclass = Hollow,
     rarity = Common,
     generation = 0,
     level = 1,
     xp = 0,
     xpToNextLevel = 100,
     stats = s,
     statGrowthPrimary = primaryGrowth (CLASS_DEFINITIONS Ember),
     statGrowthSecondary = secondaryGrowth (CLASS_DEFINITIONS Hollow),
     genes = demo_genome,
     profession = Mining,
     professionSkillLevel = 0,
     stamina = 25,
     maxStamina = 25,
     hp = 105,
     maxHp = 105,
     mp = 53,
     maxMp = 53,
     summonsRemaining = 10,
     maxSummons = 10,
     summonCooldownEnd = None,
     parentIds = None,
     owner = ''owner'',
     createdAt = 0\<rparr>"

definition root_a :: Profile where
  "root_a = mk_root ''A'' ''Ash'' (baseStats (CLASS_DEFINITIONS Ember))"

definition root_b :: Profile where
  "root_b = mk_root ''B'' ''Birch'' (baseStats (CLASS_DEFINITIONS Ember))"

definition bred_c :: Profile where
  "bred_c = root_a\<lparr>sigil_id := ''C'', name := ''Cinder'', generation := 1,
                   summonsRemaining := 8, maxSummons := 9, parentIds := Some (''A'', ''B'')\<rparr>"

definition bred_d :: Profile where
  "bred_d = root_a\<lparr>sigil_id := ''D'', name := ''Dusk'', generation := 1,
                   summonsRemaining := 9, maxSummons := 9, parentIds := Some (''B'', ''A'')\<rparr>"

definition bred_e :: Profile where
  "bred_e = root_a\<lparr>sigil_id := ''E'', name := ''Elm'', generation := 1,
                   summonsRemaining := 8, maxSummons := 9, parentIds := Some (''X'', ''Y'')\<rparr>"

definition demo_store :: store where
  "demo_store = \<lparr>
     statObjs = [baseStats (CLASS_DEFINITIONS Ember), baseStats (CLASS_DEFINITIONS Ember)],
     profObjs = [mk_root ''A'' ''Ash'' 0, mk_root ''B'' ''Birch'' 1]\<rparr>"

section \<open>Properties\<close>

subsection \<open>Stat blocks and draws\<close>

lemma getStat_setStat: "getStat (setStat s k v) k' = (if k' = k then v else getStat s k')"
  by (cases k; cases k'; simp)

lemma draw_val_range: "0 \<le> draw_val r \<and> draw_val r < 1"
  using draw_val [of r] by simp

lemma variance_range: "- 2 \<le> \<lfloor>draw_val r * 5\<rfloor> - 2 \<and> \<lfloor>draw_val r * 5\<rfloor> - 2 \<le> 2"
proof -
  have "0 \<le> draw_val r * 5" and "draw_val r * 5 < 5"
    using draw_val_range [of r] by simp_all
  then have "0 \<le> \<lfloor>draw_val r * 5\<rfloor>" and "\<lfloor>draw_val r * 5\<rfloor> < 5"
    by (simp_all add: floor_less_iff)
  then show ?thesis by simp
qed

lemma variance_uniform:
  "(\<lfloor>draw_val r * 5\<rfloor> - 2 = j) = ((real_of_int j + 2) / 5 \<le> draw_val r \<and> draw_val r < (real_of_int j + 3) / 5)"
  by (auto simp: floor_eq_iff field_simps)

lemma generateBaseStats_loop_other:
  "k \<notin> set keys \<Longrightarrow> getStat (fst (generateBaseStats_loop keys s g)) k = getStat s k"
  by (induction keys arbitrary: s g)
     (auto simp: Math_random_def Let_def getStat_setStat)

lemma generateBaseStats_loop_nth:
  "distinct keys \<Longrightarrow> i < length keys \<Longrightarrow>
   getStat (fst (generateBaseStats_loop keys s g)) (keys ! i)
     = max 1 (getStat s (keys ! i) + (\<lfloor>draw_val (g !! i) * 5\<rfloor> - 2))"
proof (induction keys arbitrary: s g i)
  case Nil
  then show ?case by simp
next
  case (Cons key keys)
  show ?case
  proof (cases i)
    case 0
    with Cons.prems show ?thesis
      by (simp add: Math_random_def Let_def generateBaseStats_loop_other getStat_setStat)
  next
    case (Suc j)
    with Cons.prems have "keys ! j \<noteq> key" by auto
    with Suc Cons.prems Cons.IH [of j _ "stl g"] show ?thesis
      by (simp add: Math_random_def Let_def getStat_setStat)
  qed
qed

lemma STAT_KEYS_all: "k \<in> set STAT_KEYS"
  by (cases k) (simp_all add: STAT_KEYS_def)

lemma STAT_KEYS_distinct: "distinct STAT_KEYS" and STAT_KEYS_length: "length STAT_KEYS = 8"
  by (simp_all add: STAT_KEYS_def)

lemma baseStats_ge_4: "4 \<le> getStat (baseStats (CLASS_DEFINITIONS c)) k"
  by (cases c; cases k; simp)

lemma generateBaseStats_nth:
  "i < 8 \<Longrightarrow>
   getStat (fst (generateBaseStats c g)) (STAT_KEYS ! i)
     = max 1 (getStat (baseStats (CLASS_DEFINITIONS c)) (STAT_KEYS ! i)
              + (\<lfloor>draw_val (g !! i) * 5\<rfloor> - 2))"
  unfolding generateBaseStats_def
  by (rule generateBaseStats_loop_nth) (simp_all add: STAT_KEYS_distinct STAT_KEYS_length)

lemma generateBaseStats_bounds:
  "max 1 (getStat (baseStats (CLASS_DEFINITIONS c)) k - 2) \<le> getStat (fst (generateBaseStats c g)) k
   \<and> getStat (fst (generateBaseStats c g)) k \<le> getStat (baseStats (CLASS_DEFINITIONS c)) k + 2
   \<and> 1 \<le> getStat (fst (generateBaseStats c g)) k"
proof -
  obtain i where i: "i < 8" "k = STAT_KEYS ! i"
    using STAT_KEYS_all [of k] by (auto simp: in_set_conv_nth STAT_KEYS_length)
  define v where "v = \<lfloor>draw_val (g !! i) * 5\<rfloor> - 2"
  have v: "- 2 \<le> v \<and> v \<le> 2"
    unfolding v_def by (rule variance_range)
  have "getStat (fst (generateBaseStats c g)) k
          = max 1 (getStat (baseStats (CLASS_DEFINITIONS c)) k + v)"
    using generateBaseStats_nth [OF i(1), of c g] by (simp add: i(2) v_def)
  with v baseStats_ge_4 [of c k] show ?thesis
    by linarith
qed

lemma applyRarityBonuses_pick_mono:
  "0 \<le> amount bonus \<Longrightarrow>
   getStat result k \<le> getStat (fst (applyRarityBonuses_pick n bonus available result g)) k"
proof (induction n arbitrary: available result g)
  case 0
  then show ?case by simp
next
  case (Suc n)
  show ?case
  proof (cases "available = []")
    case True
    then show ?thesis by simp
  next
    case False
    let ?idx = "nat \<lfloor>draw_val (shd g) * real (length available)\<rfloor>"
    let ?stat = "available ! ?idx"
    let ?res = "setStat result ?stat (getStat result ?stat + amount bonus)"
    have "getStat result k \<le> getStat ?res k"
      using Suc.prems by (simp add: getStat_setStat)
    also have "\<dots> \<le> getStat (fst (applyRarityBonuses_pick n bonus (splice1 available ?idx) ?res (stl g))) k"
      by (rule Suc.IH [OF Suc.prems])
    finally show ?thesis
      using False by (simp add: Math_random_def Let_def)
  qed
qed

lemma applyRarityBonuses_passes_mono:
  "\<forall>b \<in> set bonuses. 0 \<le> amount b \<Longrightarrow>
   getStat result k \<le> getStat (fst (applyRarityBonuses_passes bonuses result g)) k"
proof (induction bonuses arbitrary: result g)
  case Nil
  then show ?case by simp
next
  case (Cons b bs)
  obtain r1 g1 where p: "applyRarityBonuses_pick (count b) b STAT_KEYS result g = (r1, g1)"
    by force
  have "getStat result k \<le> getStat r1 k"
    using applyRarityBonuses_pick_mono [of b result k "count b" STAT_KEYS g] Cons.prems p by simp
  also have "\<dots> \<le> getStat (fst (applyRarityBonuses_passes bs r1 g1)) k"
    using Cons.IH [of r1 g1] Cons.prems by simp
  finally show ?case by (simp add: p)
qed

lemma registry_amounts_nonneg: "\<forall>b \<in> set (statBonuses (RARITY_DEFINITIONS r)). 0 \<le> amount b"
  by (cases r) simp_all

lemma applyRarityBonuses_mono:
  "getStat s k \<le> getStat (fst (applyRarityBonuses s r g)) k"
  unfolding applyRarityBonuses_def
  by (rule applyRarityBonuses_passes_mono [OF registry_amounts_nonneg])

lemma rollStatGrowth_loop_mono:
  "getStat result k \<le> getStat (fst (rollStatGrowth_loop keys pg sg result g)) k"
proof (induction keys arbitrary: result g)
  case Nil
  then show ?case by simp
next
  case (Cons key keys)
  let ?r1 = "if draw_val (shd g) < getStat pg key
             then setStat result key (getStat result key + 1) else result"
  let ?r2 = "if draw_val (shd (stl g)) < getStat sg key
             then setStat ?r1 key (getStat ?r1 key + 1) else ?r1"
  have "getStat result k \<le> getStat ?r1 k" by (simp add: getStat_setStat)
  also have "\<dots> \<le> getStat ?r2 k" by (simp add: getStat_setStat)
  also have "\<dots> \<le> getStat (fst (rollStatGrowth_loop keys pg sg ?r2 (stl (stl g)))) k"
    by (rule Cons.IH)
  finally show ?case by (simp add: Math_random_def Let_def)
qed

lemma rollStatGrowth_mono:
  "getStat s k \<le> getStat (fst (rollStatGrowth s pg sg g)) k"
  unfolding rollStatGrowth_def by (rule rollStatGrowth_loop_mono)

lemma boost_mono:
  fixes s :: SigilStats
  shows "getStat s k \<le> getStat (setStat s b (getStat s b + 2)) k"
  by (simp add: getStat_setStat)

lemma executeSummon_stats:
  fixes p1 p2 :: Profile
  shows "\<exists>c b r g2 g3.
           stats (offspring (fst (executeSummon p1 p2 nm ow oid rid n1 n2 g)))
             = (let s0 = fst (generateBaseStats c g2);
                    s1 = setStat s0 b (getStat s0 b + 2)
                in if r \<noteq> Common then fst (applyRarityBonuses s1 r g3) else s1)"
  unfolding executeSummon_def
  by (simp add: Let_def case_prod_beta) blast

lemma executeSummon_stats_ge_1:
  fixes p1 p2 :: Profile
  shows "1 \<le> getStat (stats (offspring (fst (executeSummon p1 p2 nm ow oid rid n1 n2 g)))) k"
proof -
  obtain c b r g2 g3 where
    e: "stats (offspring (fst (executeSummon p1 p2 nm ow oid rid n1 n2 g)))
         = (let s0 = fst (generateBaseStats c g2);
                s1 = setStat s0 b (getStat s0 b + 2)
            in if r \<noteq> Common then fst (applyRarityBonuses s1 r g3) else s1)"
    using executeSummon_stats by blast
  let ?s0 = "fst (generateBaseStats c g2)"
  let ?s1 = "setStat ?s0 b (getStat ?s0 b + 2)"
  have "1 \<le> getStat ?s0 k" using generateBaseStats_bounds [of c k g2] by simp
  also have "\<dots> \<le> getStat ?s1 k" by (rule boost_mono)
  finally have s1: "1 \<le> getStat ?s1 k" .
  show ?thesis
  proof (cases "r = Common")
    case True
    with s1 show ?thesis by (simp add: e Let_def)
  next
    case False
    have "getStat ?s1 k \<le> getStat (fst (applyRarityBonuses ?s1 r g3)) k"
      by (rule applyRarityBonuses_mono)
    with s1 False show ?thesis by (simp add: e Let_def)
  qed
qed

subsection \<open>Rarity rolls, gene selection and mutation\<close>

lemma rollOffspringRarity_common:
  "rollOffspringRarity Common Common g =
     (if draw_val (shd g) < 1/1000 then Mythic
      else if draw_val (shd g) < 9/1000 then Legendary
      else if draw_val (shd g) < 4/100 then Rare
      else if draw_val (shd g) < 20/100 then Uncommon
      else Common, stl g)"
  by (simp add: rollOffspringRarity_def indexOf_def RARITY_TIERS_def Math_random_def Let_def)

lemma rollOffspringRarity_mythic:
  "rollOffspringRarity Mythic Mythic g =
     (if draw_val (shd g) < 22/10000 then Mythic
      else if draw_val (shd g) < 15/1000 then Legendary
      else if draw_val (shd g) < 52/1000 then Rare
      else if draw_val (shd g) < 218/1000 then Uncommon
      else Common, stl g)"
  by (simp add: rollOffspringRarity_def indexOf_def RARITY_TIERS_def Math_random_def Let_def)

lemma rollRarity_eq:
  "rollRarity g =
     (if draw_val (shd g) < 75/100 then Common
      else if draw_val (shd g) < 95/100 then Uncommon
      else if draw_val (shd g) < 99/100 then Rare
      else if draw_val (shd g) < 999/1000 then Legendary
      else Mythic, stl g)"
  using draw_val_range [of "shd g"]
  by (simp add: rollRarity_def RARITY_KEYS_def Math_random_def Let_def)

lemma index_in_range:
  assumes "0 < n"
  shows "nat \<lfloor>draw_val r * real n\<rfloor> < n"
proof -
  have "draw_val r * real n < real n"
    using draw_val_range [of r] assms by simp
  then have "\<lfloor>draw_val r * real n\<rfloor> < int n"
    by (simp add: floor_less_iff)
  with assms show ?thesis by simp
qed

lemma index_uniform:
  assumes "0 < n"
  shows "(nat \<lfloor>draw_val r * real n\<rfloor> = i)
           = (real i / real n \<le> draw_val r \<and> draw_val r < (real i + 1) / real n)"
proof -
  have nn: "0 \<le> draw_val r * real n"
    using draw_val_range [of r] by simp
  then have "0 \<le> \<lfloor>draw_val r * real n\<rfloor>" by simp
  then have "(nat \<lfloor>draw_val r * real n\<rfloor> = i) = (\<lfloor>draw_val r * real n\<rfloor> = int i)"
    by auto
  also have "\<dots> = (real i \<le> draw_val r * real n \<and> draw_val r * real n < real i + 1)"
    by (simp add: floor_eq_iff)
  also have "\<dots> = (real i / real n \<le> draw_val r \<and> draw_val r < (real i + 1) / real n)"
    using assms by (simp add: field_simps)
  finally show ?thesis .
qed

lemma selectGene_eq:
  "selectGene l g =
     (if draw_val (shd g) < 3/4 then dominant l
      else if draw_val (shd g) < 15/16 then recessive l
      else hidden l, stl g)"
  by (simp add: selectGene_def Math_random_def DOMINANT_CHANCE_def RECESSIVE_CHANCE_def)

lemma randomFrom_eq:
  "randomFrom pool g = (pool ! nat \<lfloor>draw_val (shd g) * real (length pool)\<rfloor>, stl g)"
  by (simp add: randomFrom_def Math_random_def)

lemma maybeMutate_eq:
  "maybeMutate v pool g =
     (if draw_val (shd g) < 2/100 then fst (randomFrom pool (stl g)) else v, maybeMutate_rest g)"
  by (simp add: maybeMutate_def Math_random_def MUTATION_RATE_def maybeMutate_rest_def
      randomFrom_eq)

lemma inheritSlot_eq:
  "inheritSlot p1 p2 pool g =
     (\<lparr>dominant = fst (maybeMutate (fst (selectGene p1 g)) pool (sdrop 3 g)),
       recessive = fst (maybeMutate (fst (selectGene p2 (stl g))) pool
                          (maybeMutate_rest (sdrop 3 g))),
       hidden = fst (maybeMutate (fst (randomFrom pool (sdrop 2 g))) pool
                       (maybeMutate_rest (maybeMutate_rest (sdrop 3 g))))\<rparr>,
      inheritSlot_rest g)"
  by (simp add: inheritSlot_def selectGene_eq randomFrom_eq maybeMutate_eq inheritSlot_rest_def
      numeral_3_eq_3 numeral_2_eq_2)

lemma inheritGenes_eq:
  "inheritGenes a b g =
     (\<lparr>g_class = fst (inheritSlot (g_class a) (g_class b) CLASSES g),
       g_subclass = fst (inheritSlot (g_subclass a) (g_subclass b) CLASSES (inheritSlot_rest g)),
       g_profession = fst (inheritSlot (g_profession a) (g_profession b) PROFESSIONS
                            ((inheritSlot_rest ^^ 2) g)),
       activeAbility = fst (inheritSlot (activeAbility a) (activeAbility b) ACTIVE_ABILITIES
                            ((inheritSlot_rest ^^ 3) g)),
       passiveAbility = fst (inheritSlot (passiveAbility a) (passiveAbility b) PASSIVE_ABILITIES
                            ((inheritSlot_rest ^^ 4) g)),
       statBoost = fst (inheritSlot (statBoost a) (statBoost b) STAT_NAMES
                            ((inheritSlot_rest ^^ 5) g))\<rparr>,
      (inheritSlot_rest ^^ 6) g)"
  by (simp add: inheritGenes_def inheritSlot_eq numeral_eq_Suc)

subsection \<open>Cost, eligibility and synthesis\<close>

lemma areTooRelated_spec:
  "areTooRelated (parentIds p1) (parentIds p2) (sigil_id p1) (sigil_id p2) = related_spec p1 p2"
  by (auto simp: areTooRelated_def related_spec_def includes2_def Let_def doubleton_eq_iff
      split: option.splits prod.splits)

lemma parentCost_formula:
  "parentCost p = 2000 + 1000 * (maxSummons p - summonsRemaining p) + 500 * generation p"
  by (simp add: parentCost_def BASE_COST_def COST_PER_SUMMON_def COST_PER_GENERATION_def)

lemma cost_step_500: "(2000 + 1000 * a + 500 * c :: int) \<noteq> 3200"
proof
  assume e: "2000 + 1000 * a + 500 * c = 3200"
  have f: "2000 + 1000 * a + 500 * c = 500 * (4 + 2 * a + c)" by simp
  have "(500 :: int) dvd 2000 + 1000 * a + 500 * c"
    unfolding f by (rule dvd_triv_left)
  then have "(500 :: int) dvd 3200" unfolding e .
  moreover have "\<not> (500 :: int) dvd 3200" by simp
  ultimately show False by blast
qed

lemma parentCost_not_3200: "parentCost p \<noteq> 3200"
  unfolding parentCost_formula by (rule cost_step_500)

lemma executeSummon_fields:
  fixes p1 p2 :: Profile and nm ow oid rid n1 n2 g
  defines "off \<equiv> offspring (fst (executeSummon p1 p2 nm ow oid rid n1 n2 g))"
  shows "generation off = max (generation p1) (generation p2) + 1"
    and "maxSummons off = max 1 (min (summonsRemaining p1) (summonsRemaining p2) - 1)"
    and "summonsRemaining off = maxSummons off"
    and "level off = 1" and "xp off = 0" and "xpToNextLevel off = xpForLevel 1"
    and "hp off = maxHp off" and "maxHp off = calculateMaxHp (stats off) 1"
    and "mp off = maxMp off" and "maxMp off = calculateMaxMp (stats off) 1"
    and "stamina off = 25" and "maxStamina off = calculateMaxStamina 1"
    and "summonCooldownEnd off = None"
    and "parentIds off = Some (sigil_id p1, sigil_id p2)"
  unfolding off_def executeSummon_def
  by (simp_all add: Let_def case_prod_beta)

lemma calculateMaxStamina_1: "calculateMaxStamina 1 = 25"
  by (simp add: calculateMaxStamina_def)

lemma xpForLevel_1: "xpForLevel 1 = 100"
  by (simp add: xpForLevel_def)

lemma applySummonToParent_eq:
  "applySummonToParent now p =
     p\<lparr>summonsRemaining := summonsRemaining p - 1,
       summonCooldownEnd :=
         Some (now + cooldownHours (p\<lparr>summonsRemaining := summonsRemaining p - 1\<rparr>)
                       * 3600000)\<rparr>"
  by (simp add: applySummonToParent_def cooldownEndTime_def Let_def)

lemma eligible_iff:
  "eligible (checkSummonEligibility now1 now2 p1 p2) =
     (sigil_id p1 \<noteq> sigil_id p2 \<and> \<not> related_spec p1 p2
      \<and> 0 < summonsRemaining p1 \<and> 0 < summonsRemaining p2
      \<and> \<not> onCooldown now1 (summonCooldownEnd p1) \<and> \<not> onCooldown now2 (summonCooldownEnd p2))"
  by (simp add: checkSummonEligibility_def areTooRelated_spec ineligible_def Let_def not_le)

subsection \<open>The store model refines the value model\<close>

lemma heap_put_length: "length (heap_put h a k v) = length h"
  by (simp add: heap_put_def)

lemma loop_st_refines:
  "a < length h \<Longrightarrow>
   generateBaseStats_loop_st keys a h g =
     (h[a := fst (generateBaseStats_loop keys (h ! a) g)],
      snd (generateBaseStats_loop keys (h ! a) g))"
proof (induction keys arbitrary: h g)
  case Nil
  then show ?case by simp
next
  case (Cons key keys)
  let ?v = "max 1 (getStat (h ! a) key + (\<lfloor>draw_val (shd g) * 5\<rfloor> - 2))"
  let ?h = "heap_put h a key ?v"
  have len: "a < length ?h" using Cons.prems by (simp add: heap_put_length)
  have at: "?h ! a = setStat (h ! a) key ?v"
    using Cons.prems by (simp add: heap_put_def)
  have upd: "?h[a := x] = h[a := x]" for x
    by (simp add: heap_put_def)
  show ?case
    using Cons.IH [OF len, of "stl g"]
    by (simp add: Math_random_def Let_def heap_get_def at upd)
qed

lemma generateBaseStats_st_refines:
  "generateBaseStats_st c h g =
     (length h, h @ [fst (generateBaseStats c g)], snd (generateBaseStats c g))"
  by (simp add: generateBaseStats_st_def alloc_def loop_st_refines generateBaseStats_def)

lemma pick_st_refines:
  "a < length h \<Longrightarrow>
   applyRarityBonuses_pick_st n bonus available a h g =
     (h[a := fst (applyRarityBonuses_pick n bonus available (h ! a) g)],
      snd (applyRarityBonuses_pick n bonus available (h ! a) g))"
proof (induction n arbitrary: available h g)
  case 0
  then show ?case by simp
next
  case (Suc n)
  show ?case
  proof (cases "available = []")
    case True
    with Suc.prems show ?thesis by simp
  next
    case False
    let ?stat = "available ! nat \<lfloor>draw_val (shd g) * real (length available)\<rfloor>"
    let ?v = "getStat (h ! a) ?stat + amount bonus"
    let ?h = "heap_put h a ?stat ?v"
    have len: "a < length ?h" using Suc.prems by (simp add: heap_put_length)
    have at: "?h ! a = setStat (h ! a) ?stat ?v"
      using Suc.prems by (simp add: heap_put_def)
    have upd: "?h[a := x] = h[a := x]" for x
      by (simp add: heap_put_def)
    show ?thesis
      using False Suc.IH [OF len, of "splice1 available (nat \<lfloor>draw_val (shd g) * real (length available)\<rfloor>)" "stl g"]
      by (simp add: Math_random_def Let_def heap_get_def at upd)
  qed
qed

lemma passes_st_refines:
  "a < length h \<Longrightarrow>
   applyRarityBonuses_passes_st bonuses a h g =
     (h[a := fst (applyRarityBonuses_passes bonuses (h ! a) g)],
      snd (applyRarityBonuses_passes bonuses (h ! a) g))"
proof (induction bonuses arbitrary: h g)
  case Nil
  then show ?case by simp
next
  case (Cons b bs)
  obtain r1 g1 where p: "applyRarityBonuses_pick (count b) b STAT_KEYS (h ! a) g = (r1, g1)"
    by force
  have len: "a < length (h[a := r1])" using Cons.prems by simp
  show ?case
    using Cons.prems Cons.IH [OF len, of g1]
    by (simp add: pick_st_refines p)
qed

lemma applyRarityBonuses_st_refines:
  "applyRarityBonuses_st s r h g =
     (length h, h @ [fst (applyRarityBonuses (h ! s) r g)], snd (applyRarityBonuses (h ! s) r g))"
  by (simp add: applyRarityBonuses_st_def alloc_def passes_st_refines applyRarityBonuses_def)

lemma load_costs:
  "calculateSummonCost (load h p) (load h q) = calculateSummonCost p q"
  by (simp add: calculateSummonCost_def parentCost_def load_def)

lemma executeSummon_st_store:
  "snd (snd (executeSummon_st p1 p2 nm ow oid rid n1 n2 g st)) =
     st\<lparr>statObjs := statObjs st @
         (let res = offspring (fst (executeSummon (load_at st p1) (load_at st p2)
                                      nm ow oid rid n1 n2 g));
              genes' = genes res;
              s0 = fst (generateBaseStats (sigil_class res)
                          (snd (rollOffspringRarity (rarity (load_at st p1)) (rarity (load_at st p2))
                             (snd (inheritGenes (genes (load_at st p1)) (genes (load_at st p2)) g)))));
              s1 = setStat s0 (dominant (statBoost genes'))
                     (getStat s0 (dominant (statBoost genes')) + 2)
          in if rarity res \<noteq> Common then [s1, stats res] else [stats res])\<rparr>"
  unfolding executeSummon_st_def executeSummon_def load_at_def
  by (simp add: Let_def case_prod_beta generateBaseStats_st_refines
      applyRarityBonuses_st_refines heap_put_def heap_get_def load_def)

lemma executeSummon_st_result:
  "fst (executeSummon_st p1 p2 nm ow oid rid n1 n2 g st) =
     (let res = fst (executeSummon (load_at st p1) (load_at st p2) nm ow oid rid n1 n2 g);
          off = offspring res
      in \<lparr>offspring_obj = \<lparr>
            sigil_id = sigil_id off,
            name = name off,
            sigil_class = sigil_class off,
            sigil_subclass = sigil_subclass off,
            rarity = rarity off,
            generation = generation off,
            level = level off,
            xp = xp off,
            xpToNextLevel = xpToNextLevel off,
            stats = (if rarity off \<noteq> Common then Suc (length (statObjs st))
                     else length (statObjs st)),
            statGrowthPrimary = statGrowthPrimary off,
            statGrowthSecondary = statGrowthSecondary off,
            genes = genes off,
            profession = profession off,
            professionSkillLevel = professionSkillLevel off,
            stamina = stamina off,
            maxStamina = maxStamina off,
            hp = hp off,
            maxHp = maxHp off,
            mp = mp off,
            maxMp = maxMp off,
            summonsRemaining = summonsRemaining off,
            maxSummons = maxSummons off,
            summonCooldownEnd = summonCooldownEnd off,
            parentIds = parentIds off,
            owner = owner off,
            createdAt = createdAt off\<rparr>,
          summon_record_st = summon_record res,
          result_cost_st = result_cost res\<rparr>)"
  unfolding executeSummon_st_def executeSummon_def load_at_def
  by (simp add: Let_def case_prod_beta generateBaseStats_st_refines
      applyRarityBonuses_st_refines heap_put_def heap_get_def load_def
      calculateSummonCost_def parentCost_def nth_append)

lemma executeSummon_st_rng:
  "fst (snd (executeSummon_st p1 p2 nm ow oid rid n1 n2 g st)) =
     snd (executeSummon (load_at st p1) (load_at st p2) nm ow oid rid n1 n2 g)"
  unfolding executeSummon_st_def executeSummon_def load_at_def
  by (simp add: Let_def case_prod_beta generateBaseStats_st_refines
      applyRarityBonuses_st_refines heap_put_def heap_get_def load_def)

lemma executeSummon_st_profObjs:
  "profObjs (snd (snd (executeSummon_st p1 p2 nm ow oid rid n1 n2 g st))) = profObjs st"
  by (simp add: executeSummon_st_store)

lemma executeSummon_st_statObjs:
  "\<exists>s1. statObjs (snd (snd (executeSummon_st p1 p2 nm ow oid rid n1 n2 g st))) =
     statObjs st @
       (let off = offspring (fst (executeSummon (load_at st p1) (load_at st p2)
                                    nm ow oid rid n1 n2 g))
        in if rarity off \<noteq> Common then [s1, stats off] else [stats off])"
  by (simp add: executeSummon_st_store Let_def)

lemma executeSummon_st_prefix:
  "take (length (statObjs st))
     (statObjs (snd (snd (executeSummon_st p1 p2 nm ow oid rid n1 n2 g st)))) = statObjs st"
  using executeSummon_st_statObjs [of p1 p2 nm ow oid rid n1 n2 g st] by auto

lemma load_prefix:
  "stats p < length h \<Longrightarrow> take (length h) h' = h \<Longrightarrow> load h' p = load h p"
proof -
  assume a: "stats p < length h" and t: "take (length h) h' = h"
  have "h' ! stats p = take (length h) h' ! stats p"
    using a by simp
  then have "h' ! stats p = h ! stats p" by (simp only: t)
  then show ?thesis by (simp add: load_def)
qed

lemma executeSummon_st_fresh:
  "length (statObjs st)
     \<le> stats (offspring_obj (fst (executeSummon_st p1 p2 nm ow oid rid n1 n2 g st)))
   \<and> stats (offspring_obj (fst (executeSummon_st p1 p2 nm ow oid rid n1 n2 g st)))
       < length (statObjs (snd (snd (executeSummon_st p1 p2 nm ow oid rid n1 n2 g st))))"
  using executeSummon_st_statObjs [of p1 p2 nm ow oid rid n1 n2 g st]
  by (auto simp: executeSummon_st_result Let_def)

lemma executeSummon_st_offspring:
  "load (statObjs (snd (snd (executeSummon_st p1 p2 nm ow oid rid n1 n2 g st))))
        (offspring_obj (fst (executeSummon_st p1 p2 nm ow oid rid n1 n2 g st)))
     = offspring (fst (executeSummon (load_at st p1) (load_at st p2) nm ow oid rid n1 n2 g))"
  using executeSummon_st_statObjs [of p1 p2 nm ow oid rid n1 n2 g st]
  by (auto simp: executeSummon_st_result Let_def load_def nth_append)

subsection \<open>Eligibility at concrete profiles\<close>

text \<open>
  The refusals of the specification's examples: the same identity; a child of
  \<open>A\<close> and \<open>B\<close> with \<open>A\<close>, in either argument order; two children of
  \<open>A\<close> and \<open>B\<close> whose parent pairs are recorded in opposite orders; an exhausted
  budget; a cooldown that ends after the check, and one that ended before it.
\<close>

lemma checkSummonEligibility_examples:
  "reason (checkSummonEligibility 0 0 root_a (root_b\<lparr>sigil_id := ''A''\<rparr>))
     = Some CannotSummonWithSelf
   \<and> reason (checkSummonEligibility 0 0 bred_c root_a) = Some TooCloselyRelated
   \<and> reason (checkSummonEligibility 0 0 root_b bred_c) = Some TooCloselyRelated
   \<and> reason (checkSummonEligibility 0 0 bred_c bred_d) = Some TooCloselyRelated
   \<and> reason (checkSummonEligibility 0 0 root_a (root_b\<lparr>summonsRemaining := 0\<rparr>))
       = Some (NoSummonsRemaining ''Birch'')
   \<and> reason (checkSummonEligibility 0 0 (root_a\<lparr>summonCooldownEnd := Some 5\<rparr>) root_b)
       = Some (OnCooldownUntil ''Ash'' 5)
   \<and> reason (checkSummonEligibility 0 0 root_a (root_b\<lparr>summonCooldownEnd := Some 5\<rparr>))
       = Some (OnCooldownUntil ''Birch'' 5)
   \<and> \<not> eligible (checkSummonEligibility 0 0 bred_c bred_d)
   \<and> eligible (checkSummonEligibility 9 9 (root_a\<lparr>summonCooldownEnd := Some 5\<rparr>) root_b)
   \<and> reason (checkSummonEligibility 9 9 (root_a\<lparr>summonCooldownEnd := Some 5\<rparr>) root_b)
       = None"
  by (simp add: checkSummonEligibility_def ineligible_def areTooRelated_def includes2_def
      onCooldown_def root_a_def root_b_def bred_c_def bred_d_def mk_root_def)

section \<open>The claims\<close>

text \<open>
  Claim C1. With two common parents the offspring rarity roll is claimed to return
  each tier with the registry's base chance (0.75, 0.20, 0.04, 0.009, 0.001), and with
  two mythic parents to return mythic with a probability above 0.001 that is still
  small.

  What the code does: with two common parents the bonus is zero and the draw \<open>r\<close> is
  compared with 0.001, 0.009, 0.04 and 0.20 in turn, so the draws that give mythic,
  legendary, rare, uncommon and common are the intervals from 0 to 0.001, from 0.001
  to 0.009, from 0.009 to 0.04, from 0.04 to 0.20 and from 0.20 to 1. Their lengths
  are 0.001, 0.008, 0.031, 0.16 and 0.80: only the first is the registry's chance.
  The registry's chances are used as cumulative thresholds although they are the
  increments; \<open>rollRarity\<close> in classes.ts accumulates them (see the lemma on
  \<open>rollRarity\<close> above). At the draw 0.22 the result is common. With two mythic
  parents the mythic threshold is 0.0022.
\<close>

theorem rollOffspringRarity_common_parents_intervals:
  "(fst (rollOffspringRarity Common Common g) = Mythic) = (draw_val (shd g) < 1/1000)
   \<and> (fst (rollOffspringRarity Common Common g) = Legendary)
       = (1/1000 \<le> draw_val (shd g) \<and> draw_val (shd g) < 9/1000)
   \<and> (fst (rollOffspringRarity Common Common g) = Rare)
       = (9/1000 \<le> draw_val (shd g) \<and> draw_val (shd g) < 4/100)
   \<and> (fst (rollOffspringRarity Common Common g) = Uncommon)
       = (4/100 \<le> draw_val (shd g) \<and> draw_val (shd g) < 20/100)
   \<and> (fst (rollOffspringRarity Common Common g) = Common) = (20/100 \<le> draw_val (shd g))
   \<and> 1/1000 - 0 = chance (RARITY_DEFINITIONS Mythic)
   \<and> 9/1000 - 1/1000 \<noteq> chance (RARITY_DEFINITIONS Legendary)
   \<and> 4/100 - 9/1000 \<noteq> chance (RARITY_DEFINITIONS Rare)
   \<and> 20/100 - 4/100 \<noteq> chance (RARITY_DEFINITIONS Uncommon)
   \<and> 1 - 20/100 \<noteq> chance (RARITY_DEFINITIONS Common)
   \<and> (fst (rollOffspringRarity Mythic Mythic g) = Mythic) = (draw_val (shd g) < 22/10000)
   \<and> chance (RARITY_DEFINITIONS Mythic) < 22/10000
   \<and> fst (rollOffspringRarity Common Common (sconst (Draw (22/100)))) = Common"
  by (simp add: rollOffspringRarity_common rollOffspringRarity_mythic Draw_inverse)

text \<open>
  Claim C2. The individual cost of a parent is 2000 plus 1000 per summon consumed
  (\<open>maxSummons\<close> minus \<open>summonsRemaining\<close>) plus 500 per generation; the cost of a
  summoning is the maximum of the two individual costs, not their sum; so when the
  individual costs are \<open>c1 \<le> c2\<close> the cost is \<open>c2\<close> (the claim's instance is
  2500 and 3200), and two generation-0 parents with no summon consumed cost 2000.
  (With integer fields every individual cost is a multiple of 500, so 3200 itself is
  not an individual cost, see the lemma above; the statement is instantiated at 2500
  and 3500.)
\<close>

theorem calculateSummonCost_max_of_parent_costs:
  "parentCost p = 2000 + 1000 * (maxSummons p - summonsRemaining p) + 500 * generation p
   \<and> calculateSummonCost p1 p2 = max (parentCost p1) (parentCost p2)
   \<and> (parentCost p1 = c1 \<and> parentCost p2 = c2 \<and> c1 \<le> c2
        \<longrightarrow> calculateSummonCost p1 p2 = c2)
   \<and> (generation p1 = 0 \<and> generation p2 = 0
        \<and> summonsRemaining p1 = maxSummons p1 \<and> summonsRemaining p2 = maxSummons p2
        \<longrightarrow> calculateSummonCost p1 p2 = 2000)"
  by (simp add: parentCost_formula calculateSummonCost_def)

theorem calculateSummonCost_max_of_parent_costs_witness:
  "parentCost bred_d = 2500 \<and> parentCost bred_e = 3500 \<and> (2500 :: int) \<le> 3500
   \<and> calculateSummonCost bred_d bred_e = 3500
   \<and> generation root_a = 0 \<and> generation root_b = 0
   \<and> summonsRemaining root_a = maxSummons root_a \<and> summonsRemaining root_b = maxSummons root_b
   \<and> calculateSummonCost root_a root_b = 2000"
  using calculateSummonCost_max_of_parent_costs
      [where p = bred_d and ?p1.0 = bred_d and ?p2.0 = bred_e and ?c1.0 = 2500 and ?c2.0 = 3500]
    calculateSummonCost_max_of_parent_costs
      [where p = root_a and ?p1.0 = root_a and ?p2.0 = root_b and ?c1.0 = 2000 and ?c2.0 = 2000]
  by (simp add: parentCost_formula bred_d_def bred_e_def root_a_def root_b_def mk_root_def)

text \<open>
  Claim C3. \<open>checkSummonEligibility\<close> refuses exactly when (a) the two profiles
  have the same identity, or (b) they are related in the sense of \<open>related_spec\<close>,
  or (c) either has no summon remaining, or (d) the cooldown end of either is set and
  later than the instant of the check; the reason reported is the first that applies,
  in this order, the first parent before the second; otherwise the result is eligible
  and carries the cost and the cooldown hours of each parent. A refusal is the record
  with \<open>eligible = False\<close> and the reason in its \<open>reason\<close> field; the \<open>reason\<close>
  field of the result is given case by case, it is set exactly when the result is a
  refusal, and a cooldown refusal for the first parent carries that parent's name and
  cooldown end.
\<close>

theorem checkSummonEligibility_refusals_in_order:
  "checkSummonEligibility now1 now2 p1 p2 =
     (if sigil_id p1 = sigil_id p2 then ineligible CannotSummonWithSelf
      else if related_spec p1 p2 then ineligible TooCloselyRelated
      else if summonsRemaining p1 \<le> 0 then ineligible (NoSummonsRemaining (name p1))
      else if summonsRemaining p2 \<le> 0 then ineligible (NoSummonsRemaining (name p2))
      else if (\<exists>t. summonCooldownEnd p1 = Some t \<and> now1 < t)
      then ineligible (OnCooldownUntil (name p1) (the (summonCooldownEnd p1)))
      else if (\<exists>t. summonCooldownEnd p2 = Some t \<and> now2 < t)
      then ineligible (OnCooldownUntil (name p2) (the (summonCooldownEnd p2)))
      else \<lparr>eligible = True, reason = None,
             elig_cost = Some (calculateSummonCost p1 p2),
             cooldownHoursP1 = Some (cooldownHours p1),
             cooldownHoursP2 = Some (cooldownHours p2)\<rparr>)
   \<and> ineligible why =
       \<lparr>eligible = False, reason = Some why, elig_cost = None,
        cooldownHoursP1 = None, cooldownHoursP2 = None\<rparr>
   \<and> reason (checkSummonEligibility now1 now2 p1 p2) =
       (if sigil_id p1 = sigil_id p2 then Some CannotSummonWithSelf
        else if related_spec p1 p2 then Some TooCloselyRelated
        else if summonsRemaining p1 \<le> 0 then Some (NoSummonsRemaining (name p1))
        else if summonsRemaining p2 \<le> 0 then Some (NoSummonsRemaining (name p2))
        else if (\<exists>t. summonCooldownEnd p1 = Some t \<and> now1 < t)
        then Some (OnCooldownUntil (name p1) (the (summonCooldownEnd p1)))
        else if (\<exists>t. summonCooldownEnd p2 = Some t \<and> now2 < t)
        then Some (OnCooldownUntil (name p2) (the (summonCooldownEnd p2)))
        else None)
   \<and> (summonCooldownEnd p1 = Some e1 \<and> now1 < e1
        \<and> sigil_id p1 \<noteq> sigil_id p2 \<and> \<not> related_spec p1 p2
        \<and> 0 < summonsRemaining p1 \<and> 0 < summonsRemaining p2
       \<longrightarrow> reason (checkSummonEligibility now1 now2 p1 p2)
             = Some (OnCooldownUntil (name p1) e1))
   \<and> (eligible (checkSummonEligibility now1 now2 p1 p2) = False) =
       (sigil_id p1 = sigil_id p2
        \<or> related_spec p1 p2
        \<or> summonsRemaining p1 \<le> 0 \<or> summonsRemaining p2 \<le> 0
        \<or> (\<exists>t. summonCooldownEnd p1 = Some t \<and> now1 < t)
        \<or> (\<exists>t. summonCooldownEnd p2 = Some t \<and> now2 < t))
   \<and> (eligible (checkSummonEligibility now1 now2 p1 p2) = False)
       = (reason (checkSummonEligibility now1 now2 p1 p2) \<noteq> None)"
proof -
  have full: "checkSummonEligibility now1 now2 p1 p2 =
     (if sigil_id p1 = sigil_id p2 then ineligible CannotSummonWithSelf
      else if related_spec p1 p2 then ineligible TooCloselyRelated
      else if summonsRemaining p1 \<le> 0 then ineligible (NoSummonsRemaining (name p1))
      else if summonsRemaining p2 \<le> 0 then ineligible (NoSummonsRemaining (name p2))
      else if (\<exists>t. summonCooldownEnd p1 = Some t \<and> now1 < t)
      then ineligible (OnCooldownUntil (name p1) (the (summonCooldownEnd p1)))
      else if (\<exists>t. summonCooldownEnd p2 = Some t \<and> now2 < t)
      then ineligible (OnCooldownUntil (name p2) (the (summonCooldownEnd p2)))
      else \<lparr>eligible = True, reason = None,
             elig_cost = Some (calculateSummonCost p1 p2),
             cooldownHoursP1 = Some (cooldownHours p1),
             cooldownHoursP2 = Some (cooldownHours p2)\<rparr>)"
    by (auto simp: checkSummonEligibility_def areTooRelated_spec onCooldown_def
        Let_def split: option.splits)
  have lit: "ineligible why =
       \<lparr>eligible = False, reason = Some why, elig_cost = None,
        cooldownHoursP1 = None, cooldownHoursP2 = None\<rparr>" for why
    by (simp add: ineligible_def)
  define c1 where "c1 = (\<exists>t. summonCooldownEnd p1 = Some t \<and> now1 < t)"
  define c2 where "c2 = (\<exists>t. summonCooldownEnd p2 = Some t \<and> now2 < t)"
  note full' = full [folded c1_def c2_def]
  have rsn': "reason (checkSummonEligibility now1 now2 p1 p2) =
       (if sigil_id p1 = sigil_id p2 then Some CannotSummonWithSelf
        else if related_spec p1 p2 then Some TooCloselyRelated
        else if summonsRemaining p1 \<le> 0 then Some (NoSummonsRemaining (name p1))
        else if summonsRemaining p2 \<le> 0 then Some (NoSummonsRemaining (name p2))
        else if c1
        then Some (OnCooldownUntil (name p1) (the (summonCooldownEnd p1)))
        else if c2
        then Some (OnCooldownUntil (name p2) (the (summonCooldownEnd p2)))
        else None)"
    by (simp add: full' lit)
  have elg': "(eligible (checkSummonEligibility now1 now2 p1 p2) = False) =
       (sigil_id p1 = sigil_id p2
        \<or> related_spec p1 p2
        \<or> summonsRemaining p1 \<le> 0 \<or> summonsRemaining p2 \<le> 0
        \<or> c1 \<or> c2)"
    by (simp add: full' lit)
  have nn: "(eligible (checkSummonEligibility now1 now2 p1 p2) = False)
       = (reason (checkSummonEligibility now1 now2 p1 p2) \<noteq> None)"
    unfolding elg' rsn' by simp
  note rsn = rsn' [unfolded c1_def c2_def]
  note elg = elg' [unfolded c1_def c2_def]
  have cd: "summonCooldownEnd p1 = Some e1 \<and> now1 < e1
        \<and> sigil_id p1 \<noteq> sigil_id p2 \<and> \<not> related_spec p1 p2
        \<and> 0 < summonsRemaining p1 \<and> 0 < summonsRemaining p2
       \<longrightarrow> reason (checkSummonEligibility now1 now2 p1 p2)
             = Some (OnCooldownUntil (name p1) e1)"
  proof (intro impI)
    assume a: "summonCooldownEnd p1 = Some e1 \<and> now1 < e1
        \<and> sigil_id p1 \<noteq> sigil_id p2 \<and> \<not> related_spec p1 p2
        \<and> 0 < summonsRemaining p1 \<and> 0 < summonsRemaining p2"
    then have "c1" unfolding c1_def by blast
    with a show "reason (checkSummonEligibility now1 now2 p1 p2)
             = Some (OnCooldownUntil (name p1) e1)"
      by (simp add: rsn')
  qed
  from full lit rsn cd elg nn show ?thesis by (intro conjI)
qed

theorem checkSummonEligibility_refusals_in_order_witness:
  "summonCooldownEnd (root_a\<lparr>summonCooldownEnd := Some 5\<rparr>) = Some 5 \<and> (0 :: int) < 5
   \<and> sigil_id (root_a\<lparr>summonCooldownEnd := Some 5\<rparr>) \<noteq> sigil_id root_b
   \<and> \<not> related_spec (root_a\<lparr>summonCooldownEnd := Some 5\<rparr>) root_b
   \<and> 0 < summonsRemaining (root_a\<lparr>summonCooldownEnd := Some 5\<rparr>)
   \<and> 0 < summonsRemaining root_b
   \<and> reason (checkSummonEligibility 0 0 (root_a\<lparr>summonCooldownEnd := Some 5\<rparr>) root_b)
       = Some (OnCooldownUntil ''Ash'' 5)
   \<and> eligible (checkSummonEligibility 0 0 (root_a\<lparr>summonCooldownEnd := Some 5\<rparr>) root_b)
       = False"
  using checkSummonEligibility_refusals_in_order
      [where ?p1.0 = "root_a\<lparr>summonCooldownEnd := Some 5\<rparr>" and ?p2.0 = root_b
         and ?now1.0 = 0 and ?now2.0 = 0 and ?e1.0 = 5]
  by (simp add: related_spec_def root_a_def root_b_def mk_root_def)

text \<open>
  Claim C4. For a gene slot: selecting from a parent returns its dominant layer when
  the draw is below 0.75, its recessive layer when the draw is from 0.75 up to 0.9375,
  its hidden layer otherwise (weights 0.75, 0.1875, 0.0625); the offspring's dominant
  layer is the value selected from parent 1 and its recessive layer the value selected
  from parent 2, each passed through the mutation check; the hidden layer is a
  uniform draw from the pool passed through the mutation check, and is the same
  whatever the parents are; the mutation check replaces a value by a uniform draw from
  the pool when its own draw is below 0.02; a uniform draw from a pool of \<open>n\<close> values
  picks index \<open>i\<close> exactly when the draw lies from \<open>i / n\<close> up to \<open>(i + 1) / n\<close>;
  and a genome is six applications of this slot algorithm, each to its own slot of the
  two parents and its own segment of the draws.
\<close>

theorem inheritSlot_selection_then_mutation:
  "fst (selectGene l g) =
     (if draw_val (shd g) < 3/4 then dominant l
      else if draw_val (shd g) < 15/16 then recessive l
      else hidden l)
   \<and> DOMINANT_CHANCE = 3/4 \<and> RECESSIVE_CHANCE = 15/16 - 3/4 \<and> HIDDEN_CHANCE = 1 - 15/16
   \<and> dominant (fst (inheritSlot p1 p2 pool g))
       = fst (maybeMutate (fst (selectGene p1 g)) pool (sdrop 3 g))
   \<and> recessive (fst (inheritSlot p1 p2 pool g))
       = fst (maybeMutate (fst (selectGene p2 (stl g))) pool (maybeMutate_rest (sdrop 3 g)))
   \<and> hidden (fst (inheritSlot p1 p2 pool g))
       = fst (maybeMutate (fst (randomFrom pool (sdrop 2 g))) pool
                (maybeMutate_rest (maybeMutate_rest (sdrop 3 g))))
   \<and> hidden (fst (inheritSlot p1 p2 pool g)) = hidden (fst (inheritSlot q1 q2 pool g))
   \<and> snd (inheritSlot p1 p2 pool g) = inheritSlot_rest g
   \<and> fst (maybeMutate v pool g)
       = (if draw_val (shd g) < 2/100 then fst (randomFrom pool (stl g)) else v)
   \<and> MUTATION_RATE = 2/100
   \<and> fst (randomFrom pool g) = pool ! nat \<lfloor>draw_val (shd g) * real (length pool)\<rfloor>
   \<and> (pool \<noteq> [] \<longrightarrow>
        nat \<lfloor>draw_val (shd g) * real (length pool)\<rfloor> < length pool
        \<and> (nat \<lfloor>draw_val (shd g) * real (length pool)\<rfloor> = i)
            = (real i / real (length pool) \<le> draw_val (shd g)
               \<and> draw_val (shd g) < (real i + 1) / real (length pool)))
   \<and> inheritGenes a b g =
       (\<lparr>g_class = fst (inheritSlot (g_class a) (g_class b) CLASSES g),
         g_subclass = fst (inheritSlot (g_subclass a) (g_subclass b) CLASSES
                             (inheritSlot_rest g)),
         g_profession = fst (inheritSlot (g_profession a) (g_profession b) PROFESSIONS
                               ((inheritSlot_rest ^^ 2) g)),
         activeAbility = fst (inheritSlot (activeAbility a) (activeAbility b) ACTIVE_ABILITIES
                                ((inheritSlot_rest ^^ 3) g)),
         passiveAbility = fst (inheritSlot (passiveAbility a) (passiveAbility b)
                                 PASSIVE_ABILITIES ((inheritSlot_rest ^^ 4) g)),
         statBoost = fst (inheritSlot (statBoost a) (statBoost b) STAT_NAMES
                            ((inheritSlot_rest ^^ 5) g))\<rparr>,
        (inheritSlot_rest ^^ 6) g)"
proof (intro conjI)
  show "fst (selectGene l g) =
     (if draw_val (shd g) < 3/4 then dominant l
      else if draw_val (shd g) < 15/16 then recessive l
      else hidden l)"
    by (simp add: selectGene_eq)
  show "DOMINANT_CHANCE = 3/4" "RECESSIVE_CHANCE = 15/16 - 3/4" "HIDDEN_CHANCE = 1 - 15/16"
    "MUTATION_RATE = 2/100"
    by (simp_all add: DOMINANT_CHANCE_def RECESSIVE_CHANCE_def HIDDEN_CHANCE_def
        MUTATION_RATE_def)
  show "dominant (fst (inheritSlot p1 p2 pool g))
       = fst (maybeMutate (fst (selectGene p1 g)) pool (sdrop 3 g))"
    and "recessive (fst (inheritSlot p1 p2 pool g))
       = fst (maybeMutate (fst (selectGene p2 (stl g))) pool (maybeMutate_rest (sdrop 3 g)))"
    and "hidden (fst (inheritSlot p1 p2 pool g))
       = fst (maybeMutate (fst (randomFrom pool (sdrop 2 g))) pool
                (maybeMutate_rest (maybeMutate_rest (sdrop 3 g))))"
    and "snd (inheritSlot p1 p2 pool g) = inheritSlot_rest g"
    by (simp_all only: inheritSlot_eq fst_conv snd_conv GeneLayers.simps)
  show "hidden (fst (inheritSlot p1 p2 pool g)) = hidden (fst (inheritSlot q1 q2 pool g))"
    by (simp only: inheritSlot_eq fst_conv GeneLayers.simps)
  show "fst (maybeMutate v pool g)
       = (if draw_val (shd g) < 2/100 then fst (randomFrom pool (stl g)) else v)"
    by (simp only: maybeMutate_eq fst_conv)
  show "fst (randomFrom pool g) = pool ! nat \<lfloor>draw_val (shd g) * real (length pool)\<rfloor>"
    by (simp only: randomFrom_eq fst_conv)
  show "pool \<noteq> [] \<longrightarrow>
        nat \<lfloor>draw_val (shd g) * real (length pool)\<rfloor> < length pool
        \<and> (nat \<lfloor>draw_val (shd g) * real (length pool)\<rfloor> = i)
            = (real i / real (length pool) \<le> draw_val (shd g)
               \<and> draw_val (shd g) < (real i + 1) / real (length pool))"
    using index_in_range [of "length pool" "shd g"] index_uniform [of "length pool" "shd g" i]
    by simp
  show "inheritGenes a b g =
       (\<lparr>g_class = fst (inheritSlot (g_class a) (g_class b) CLASSES g),
         g_subclass = fst (inheritSlot (g_subclass a) (g_subclass b) CLASSES
                             (inheritSlot_rest g)),
         g_profession = fst (inheritSlot (g_profession a) (g_profession b) PROFESSIONS
                               ((inheritSlot_rest ^^ 2) g)),
         activeAbility = fst (inheritSlot (activeAbility a) (activeAbility b) ACTIVE_ABILITIES
                                ((inheritSlot_rest ^^ 3) g)),
         passiveAbility = fst (inheritSlot (passiveAbility a) (passiveAbility b)
                                 PASSIVE_ABILITIES ((inheritSlot_rest ^^ 4) g)),
         statBoost = fst (inheritSlot (statBoost a) (statBoost b) STAT_NAMES
                            ((inheritSlot_rest ^^ 5) g))\<rparr>,
        (inheritSlot_rest ^^ 6) g)"
    by (rule inheritGenes_eq)
qed

theorem inheritSlot_selection_then_mutation_witness:
  "CLASSES \<noteq> []
   \<and> nat \<lfloor>draw_val (shd (sconst (Draw (1/2)))) * real (length CLASSES)\<rfloor> < length CLASSES
   \<and> (nat \<lfloor>draw_val (shd (sconst (Draw (1/2)))) * real (length CLASSES)\<rfloor> = 3)
   \<and> fst (randomFrom CLASSES (sconst (Draw (1/2)))) = Tidecaller
   \<and> fst (inheritSlot (g_class demo_genome) (g_subclass demo_genome) CLASSES
             (sconst (Draw (1/2))))
       = \<lparr>dominant = Ember, recessive = Hollow, hidden = Tidecaller\<rparr>"
  using inheritSlot_selection_then_mutation
      [where pool = CLASSES and g = "sconst (Draw (1/2))" and i = 3
         and ?p1.0 = "g_class demo_genome" and ?p2.0 = "g_subclass demo_genome"]
  by (simp add: CLASSES_def Draw_inverse inheritSlot_eq selectGene_eq maybeMutate_eq
      randomFrom_eq maybeMutate_rest_def demo_genome_def)

text \<open>
  Claim C5. The offspring returned by \<open>executeSummon\<close> has generation one above
  the larger parent generation; \<open>maxSummons\<close> equal to the maximum of 1 and the
  smaller \<open>summonsRemaining\<close> of the parents minus 1; \<open>summonsRemaining\<close> equal to
  \<open>maxSummons\<close>; level 1 with the experience target of level 1 (which is 100); full
  health and mana; stamina at its level-1 maximum (which is 25); no cooldown end; and
  the parent identities recorded as the ordered pair of parent 1 and parent 2.
\<close>

theorem executeSummon_offspring_profile:
  fixes p1 p2 :: Profile
  shows
  "(let off = offspring (fst (executeSummon p1 p2 nm ow oid rid n1 n2 g))
    in generation off = max (generation p1) (generation p2) + 1
       \<and> maxSummons off = max 1 (min (summonsRemaining p1) (summonsRemaining p2) - 1)
       \<and> summonsRemaining off = maxSummons off
       \<and> level off = 1 \<and> xp off = 0
       \<and> xpToNextLevel off = xpForLevel 1 \<and> xpForLevel 1 = 100
       \<and> hp off = maxHp off \<and> maxHp off = calculateMaxHp (stats off) 1
       \<and> mp off = maxMp off \<and> maxMp off = calculateMaxMp (stats off) 1
       \<and> stamina off = maxStamina off \<and> maxStamina off = calculateMaxStamina 1
       \<and> calculateMaxStamina 1 = 25
       \<and> summonCooldownEnd off = None
       \<and> parentIds off = Some (sigil_id p1, sigil_id p2))"
  unfolding Let_def
  by (simp only: executeSummon_fields calculateMaxStamina_1 xpForLevel_1 simp_thms)

text \<open>
  Claim C6. With \<open>maxSummons\<close> minus \<open>summonsRemaining\<close> summons consumed, the
  cooldown in hours is 4 plus 4 per summon consumed for a generation-0 parent, and
  (24 plus 8 per generation) times (summons consumed plus 1) for a parent of
  generation at least 1; it depends on the parent's own generation, \<open>maxSummons\<close>
  and \<open>summonsRemaining\<close> only; and the two parents of one summoning can get
  different cooldowns: the eligible pair \<open>root_a\<close>, \<open>bred_e\<close> gets 4 and 64 hours.
\<close>

theorem cooldownHours_schedule:
  "(generation p = 0 \<longrightarrow>
      cooldownHours p = 4 + 4 * (maxSummons p - summonsRemaining p))
   \<and> (1 \<le> generation p \<longrightarrow>
      cooldownHours p = (24 + 8 * generation p) * (maxSummons p - summonsRemaining p + 1))
   \<and> (generation p = generation q \<and> maxSummons p = maxSummons q
        \<and> summonsRemaining p = summonsRemaining q
      \<longrightarrow> cooldownHours p = cooldownHours q)
   \<and> eligible (checkSummonEligibility 0 0 root_a bred_e)
   \<and> cooldownHoursP1 (checkSummonEligibility 0 0 root_a bred_e) = Some 4
   \<and> cooldownHoursP2 (checkSummonEligibility 0 0 root_a bred_e) = Some 64"
  by (simp add: cooldownHours_def GEN0_BASE_COOLDOWN_HOURS_def
      GEN0_COOLDOWN_INCREMENT_HOURS_def Let_def
      checkSummonEligibility_def areTooRelated_def includes2_def onCooldown_def
      root_a_def bred_e_def mk_root_def)

theorem cooldownHours_schedule_witness:
  "generation root_a = 0 \<and> cooldownHours root_a = 4
   \<and> 1 \<le> generation bred_c \<and> cooldownHours bred_c = 64
   \<and> generation bred_c = generation bred_e \<and> maxSummons bred_c = maxSummons bred_e
   \<and> summonsRemaining bred_c = summonsRemaining bred_e
   \<and> cooldownHours bred_c = cooldownHours bred_e"
  using cooldownHours_schedule [where p = root_a and q = root_a]
    cooldownHours_schedule [where p = bred_c and q = bred_e]
  by (simp add: root_a_def bred_c_def bred_e_def mk_root_def)

text \<open>
  Claim C7. The budget invariant, \<open>0 \<le> summonsRemaining \<le> maxSummons\<close> and
  \<open>1 \<le> maxSummons\<close>, holds of every offspring that \<open>executeSummon\<close> returns, and
  \<open>applySummonToParent\<close> preserves it on a parent with at least one summon
  remaining, in particular on both parents of a pair that \<open>checkSummonEligibility\<close>
  accepts. (\<open>applySummonToParent\<close> is the only function of the three modules that
  assigns to a field of an existing profile.)
\<close>

theorem summons_budget_invariant:
  fixes p1 p2 :: Profile
  shows
  "summons_inv (offspring (fst (executeSummon p1 p2 nm ow oid rid n1 n2 g)))
   \<and> (summons_inv p \<and> 1 \<le> summonsRemaining p \<longrightarrow> summons_inv (applySummonToParent now p))
   \<and> (eligible (checkSummonEligibility t1 t2 q1 q2) \<and> summons_inv q1 \<and> summons_inv q2
        \<longrightarrow> summons_inv (applySummonToParent now q1)
            \<and> summons_inv (applySummonToParent now q2))"
  by (simp add: summons_inv_def executeSummon_fields applySummonToParent_eq eligible_iff)

theorem summons_budget_invariant_witness:
  "summons_inv root_a \<and> 1 \<le> summonsRemaining root_a
   \<and> summons_inv (applySummonToParent 0 root_a)
   \<and> eligible (checkSummonEligibility 0 0 root_a bred_e)
   \<and> summons_inv bred_e
   \<and> summons_inv (applySummonToParent 0 bred_e)"
  using summons_budget_invariant
      [where p = root_a and now = 0 and ?t1.0 = 0 and ?t2.0 = 0 and ?q1.0 = root_a and ?q2.0 = bred_e]
    summons_budget_invariant
      [where p = bred_e and now = 0 and ?t1.0 = 0 and ?t2.0 = 0 and ?q1.0 = root_a and ?q2.0 = bred_e]
  by (simp add: summons_inv_def eligible_iff related_spec_def onCooldown_def
      root_a_def bred_e_def mk_root_def)

text \<open>
  Claim C8. Every stat that \<open>generateBaseStats\<close> returns is at least 1 and lies
  between the maximum of 1 and the class base minus 2, and the class base plus 2; for
  each of the eight keys it is the maximum of 1 and the class base plus a jitter, the
  jitter of the \<open>i\<close>-th key being computed from the \<open>i\<close>-th draw, lying between -2
  and 2, and taking each of its five values on a fifth of the unit interval;
  \<open>applyRarityBonuses\<close>, \<open>rollStatGrowth\<close> and the +2 boost of the synthesis
  never decrease a stat; and every stat of an offspring of \<open>executeSummon\<close> is at
  least 1.
\<close>

theorem stat_values_at_least_one:
  fixes p1 p2 :: Profile and s :: SigilStats
  shows
  "1 \<le> getStat (fst (generateBaseStats c g)) k
   \<and> max 1 (getStat (baseStats (CLASS_DEFINITIONS c)) k - 2)
       \<le> getStat (fst (generateBaseStats c g)) k
   \<and> getStat (fst (generateBaseStats c g)) k \<le> getStat (baseStats (CLASS_DEFINITIONS c)) k + 2
   \<and> map (getStat (fst (generateBaseStats c g))) STAT_KEYS
       = map (\<lambda>i. max 1 (getStat (baseStats (CLASS_DEFINITIONS c)) (STAT_KEYS ! i)
                          + (\<lfloor>draw_val (g !! i) * 5\<rfloor> - 2))) [0..<8]
   \<and> - 2 \<le> \<lfloor>draw_val r * 5\<rfloor> - 2 \<and> \<lfloor>draw_val r * 5\<rfloor> - 2 \<le> 2
   \<and> (\<lfloor>draw_val r * 5\<rfloor> - 2 = j)
       = ((real_of_int j + 2) / 5 \<le> draw_val r \<and> draw_val r < (real_of_int j + 3) / 5)
   \<and> getStat s k \<le> getStat (fst (applyRarityBonuses s ra g)) k
   \<and> getStat s k \<le> getStat (fst (rollStatGrowth s pg sg g)) k
   \<and> getStat s k \<le> getStat (setStat s b (getStat s b + 2)) k
   \<and> 1 \<le> getStat (stats (offspring (fst (executeSummon p1 p2 nm ow oid rid n1 n2 g)))) k"
proof -
  let ?f = "getStat (fst (generateBaseStats c g))"
  have "map ?f STAT_KEYS = map ?f (map ((!) STAT_KEYS) [0..<length STAT_KEYS])"
    by (simp only: map_nth)
  also have "\<dots> = map (\<lambda>i. ?f (STAT_KEYS ! i)) [0..<8]"
    by (simp add: STAT_KEYS_length)
  also have "\<dots> = map (\<lambda>i. max 1 (getStat (baseStats (CLASS_DEFINITIONS c)) (STAT_KEYS ! i)
                          + (\<lfloor>draw_val (g !! i) * 5\<rfloor> - 2))) [0..<8]"
    by (rule map_cong) (simp_all add: generateBaseStats_nth)
  finally have m: "map ?f STAT_KEYS
       = map (\<lambda>i. max 1 (getStat (baseStats (CLASS_DEFINITIONS c)) (STAT_KEYS ! i)
                          + (\<lfloor>draw_val (g !! i) * 5\<rfloor> - 2))) [0..<8]" .
  show ?thesis
    using generateBaseStats_bounds [of c k g] m variance_range [of r] variance_uniform [of r j]
      applyRarityBonuses_mono [of s k ra g] rollStatGrowth_mono [of s k pg sg g]
      boost_mono [of s k b] executeSummon_stats_ge_1 [of p1 p2 nm ow oid rid n1 n2 g k]
    by blast
qed

text \<open>
  Claim C9. \<open>applySummonToParent\<close> changes two fields of the profile and no other:
  \<open>summonsRemaining\<close> decreases by 1, and \<open>summonCooldownEnd\<close> becomes the instant
  \<open>now\<close> plus the cooldown hours (in milliseconds) of the profile after the
  decrement. It is not idempotent: applied twice it decreases \<open>summonsRemaining\<close>
  by 2.
\<close>

theorem applySummonToParent_changes_two_fields:
  "applySummonToParent now p =
     p\<lparr>summonsRemaining := summonsRemaining p - 1,
       summonCooldownEnd :=
         Some (now + cooldownHours (p\<lparr>summonsRemaining := summonsRemaining p - 1\<rparr>)
                       * 3600000)\<rparr>
   \<and> summonsRemaining (applySummonToParent now p) = summonsRemaining p - 1
   \<and> summonCooldownEnd (applySummonToParent now p)
       = Some (now + 3600000 * cooldownHours (p\<lparr>summonsRemaining := summonsRemaining p - 1\<rparr>))
   \<and> summonsRemaining (applySummonToParent now' (applySummonToParent now p))
       = summonsRemaining p - 2"
  by (simp add: applySummonToParent_eq)

text \<open>
  Claim C10. \<open>executeSummon\<close> does not mutate a parent. In the store model: the
  profile objects of the store are the same after the call; the stat-block objects
  that existed before the call are unchanged (the old heap is a prefix of the new
  one); so a profile whose stats reference is valid reads the same before and after,
  in every field, and this holds of both parents; the stat block of the offspring is
  at a fresh address; and the outputs are the offspring, the record and the cost that
  \<open>executeSummon\<close> on profile values computes from the two parents as read from
  the store, with the same draws consumed.
\<close>

theorem executeSummon_st_leaves_parents_untouched:
  "(let res = executeSummon_st p1 p2 nm ow oid rid n1 n2 g st;
        st' = snd (snd res);
        obj = offspring_obj (fst res);
        val = executeSummon (load_at st p1) (load_at st p2) nm ow oid rid n1 n2 g
    in profObjs st' = profObjs st
       \<and> take (length (statObjs st)) (statObjs st') = statObjs st
       \<and> (stats (profObjs st ! a) < length (statObjs st) \<longrightarrow> load_at st' a = load_at st a)
       \<and> length (statObjs st) \<le> stats obj \<and> stats obj < length (statObjs st')
       \<and> load (statObjs st') obj = offspring (fst val)
       \<and> summon_record_st (fst res) = summon_record (fst val)
       \<and> result_cost_st (fst res) = result_cost (fst val)
       \<and> fst (snd res) = snd val)"
  unfolding Let_def
proof (intro conjI impI)
  let ?res = "executeSummon_st p1 p2 nm ow oid rid n1 n2 g st"
  let ?val = "executeSummon (load_at st p1) (load_at st p2) nm ow oid rid n1 n2 g"
  show po: "profObjs (snd (snd ?res)) = profObjs st"
    by (rule executeSummon_st_profObjs)
  show tk: "take (length (statObjs st)) (statObjs (snd (snd ?res))) = statObjs st"
    by (rule executeSummon_st_prefix)
  show "load_at (snd (snd ?res)) a = load_at st a"
    if "stats (profObjs st ! a) < length (statObjs st)"
    unfolding load_at_def po by (rule load_prefix [OF that tk])
  show "length (statObjs st) \<le> stats (offspring_obj (fst ?res))"
    and "stats (offspring_obj (fst ?res)) < length (statObjs (snd (snd ?res)))"
    using executeSummon_st_fresh [of st p1 p2 nm ow oid rid n1 n2 g] by simp_all
  show "load (statObjs (snd (snd ?res))) (offspring_obj (fst ?res)) = offspring (fst ?val)"
    by (rule executeSummon_st_offspring)
  show "summon_record_st (fst ?res) = summon_record (fst ?val)"
    and "result_cost_st (fst ?res) = result_cost (fst ?val)"
    by (simp_all add: executeSummon_st_result Let_def)
  show "fst (snd ?res) = snd ?val"
    by (rule executeSummon_st_rng)
qed

theorem executeSummon_st_leaves_parents_untouched_witness:
  "stats (profObjs demo_store ! 0) < length (statObjs demo_store)
   \<and> stats (profObjs demo_store ! 1) < length (statObjs demo_store)
   \<and> load_at (snd (snd (executeSummon_st 0 1 ''Coal'' ''owner'' ''C'' ''R'' 7 8
                            (sconst (Draw (1/2))) demo_store))) 0
       = load_at demo_store 0
   \<and> load_at (snd (snd (executeSummon_st 0 1 ''Coal'' ''owner'' ''C'' ''R'' 7 8
                            (sconst (Draw (1/2))) demo_store))) 1
       = load_at demo_store 1
   \<and> load_at demo_store 0 = root_a \<and> load_at demo_store 1 = root_b"
proof -
  let ?st' = "snd (snd (executeSummon_st 0 1 ''Coal'' ''owner'' ''C'' ''R'' 7 8
                          (sconst (Draw (1/2))) demo_store))"
  have h0: "stats (profObjs demo_store ! 0) < length (statObjs demo_store)"
    and h1: "stats (profObjs demo_store ! 1) < length (statObjs demo_store)"
    by (simp_all add: demo_store_def mk_root_def)
  have "load_at ?st' 0 = load_at demo_store 0"
    using h0 executeSummon_st_leaves_parents_untouched
      [where st = demo_store and a = 0 and ?p1.0 = 0 and ?p2.0 = 1 and nm = "''Coal''"
         and ow = "''owner''" and oid = "''C''" and rid = "''R''" and ?n1.0 = 7 and ?n2.0 = 8
         and g = "sconst (Draw (1/2))"]
    unfolding Let_def by blast
  moreover have "load_at ?st' 1 = load_at demo_store 1"
    using h1 executeSummon_st_leaves_parents_untouched
      [where st = demo_store and a = 1 and ?p1.0 = 0 and ?p2.0 = 1 and nm = "''Coal''"
         and ow = "''owner''" and oid = "''C''" and rid = "''R''" and ?n1.0 = 7 and ?n2.0 = 8
         and g = "sconst (Draw (1/2))"]
    unfolding Let_def by blast
  moreover have "load_at demo_store 0 = root_a" and "load_at demo_store 1 = root_b"
    by (simp_all add: demo_store_def mk_root_def load_at_def load_def root_a_def root_b_def)
  ultimately show ?thesis using h0 h1 by blast
qed

end
